theory Spec2Isabelle
  imports Complex_Main
begin

section \<open>Numbers, vectors and the shared browser objects\<close>

text \<open>
  The three script variants of the solar-system explorer (\<^verbatim>\<open>script.js\<close>, \<^verbatim>\<open>app.js\<close> and
  \<^verbatim>\<open>main.js\<close>) compute with JavaScript numbers. They are embedded here as \<^typ>\<open>real\<close>:
  \<open>+\<close>, \<open>-\<close>, \<open>*\<close>, \<open>/\<close>, \<^verbatim>\<open>Math.cos\<close>, \<^verbatim>\<open>Math.sin\<close>, \<^verbatim>\<open>Math.min\<close>, \<^verbatim>\<open>Math.max\<close> and
  \<^verbatim>\<open>Math.PI\<close> are the exact operations \<^const>\<open>cos\<close>, \<^const>\<open>sin\<close>, \<^const>\<open>min\<close>, \<^const>\<open>max\<close> and
  \<^const>\<open>pi\<close>. Rounding of IEEE doubles, infinities and NaN are outside this model, and so is a
  division by zero (a window of height 0), which no statement below relies on.
\<close>

type_synonym vec3 = "real \<times> real \<times> real"

text \<open>The Euclidean length of a vector: its distance from the origin.\<close>

definition vec_length :: "vec3 \<Rightarrow> real" where
  "vec_length v = (case v of (x, y, z) \<Rightarrow> sqrt (x * x + y * y + z * z))"

text \<open>
  The perspective camera and the renderer, as far as the scripts touch them: the camera's
  position, its \<^verbatim>\<open>aspect\<close> property, and the aspect its projection matrix was last computed
  from (\<^verbatim>\<open>updateProjectionMatrix\<close> recomputes the matrix from the current \<^verbatim>\<open>aspect\<close>); the
  renderer's output size as set by \<^verbatim>\<open>setSize\<close>.
\<close>

record camera_obj =
  cam_position :: vec3
  cam_aspect :: real
  cam_projection_aspect :: real

definition updateProjectionMatrix :: "camera_obj \<Rightarrow> camera_obj" where
  "updateProjectionMatrix cam = cam\<lparr>cam_projection_aspect := cam_aspect cam\<rparr>"

record display =
  camera :: camera_obj
  renderer_size :: "real \<times> real"

text \<open>
  The resize listener, the same three statements in all three scripts; \<open>innerWidth\<close> and
  \<open>innerHeight\<close> are the window's dimensions when the event fires.
  \<^verbatim>\<open>
  window.addEventListener('resize', () => {
    camera.aspect = window.innerWidth / window.innerHeight;
    camera.updateProjectionMatrix();
    renderer.setSize(window.innerWidth, window.innerHeight);
  });
  \<close>
\<close>

definition resize :: "real \<Rightarrow> real \<Rightarrow> 'a display_scheme \<Rightarrow> 'a display_scheme" where
  "resize innerWidth innerHeight s =
     (let cam1 = (camera s)\<lparr>cam_aspect := innerWidth / innerHeight\<rparr>;
          cam2 = updateProjectionMatrix cam1
      in s\<lparr>camera := cam2, renderer_size := (innerWidth, innerHeight)\<rparr>)"

text \<open>
  What the nipplejs joystick passes to a \<^verbatim>\<open>move\<close> handler, as far as the handlers read it:
  \<^verbatim>\<open>data.angle.radian\<close>, \<^verbatim>\<open>data.distance\<close> and \<^verbatim>\<open>data.vector\<close>.
\<close>

record nipple_data =
  data_angle_radian :: real
  data_distance :: real
  data_vector_x :: real
  data_vector_y :: real

text \<open>
  The events the browser delivers to a joystick-driven script: joystick \<^verbatim>\<open>move\<close> and \<^verbatim>\<open>end\<close>,
  an animation frame, and a window resize with the new inner width and height.
\<close>

datatype event =
    JoystickMove nipple_data
  | JoystickEnd
  | AnimationFrame
  | Resize real real

text \<open>A row of the planet tables of \<^verbatim>\<open>script.js\<close> and \<^verbatim>\<open>app.js\<close>.\<close>

record planet_datum =
  radius :: real
  size_d :: real
  color :: nat
  speed :: real


section \<open>The app.js variant\<close>

definition orbitData :: "planet_datum list" where
  "orbitData =
     [\<lparr>radius = 5, size_d = 0.4, color = 0xa8a9ad, speed = 0.02\<rparr>,
      \<lparr>radius = 7, size_d = 0.6, color = 0xe0c16f, speed = 0.015\<rparr>,
      \<lparr>radius = 9, size_d = 0.6, color = 0x2d7dd2, speed = 0.013\<rparr>,
      \<lparr>radius = 11, size_d = 0.4, color = 0xff8040, speed = 0.011\<rparr>,
      \<lparr>radius = 15, size_d = 1.0, color = 0xe5c07b, speed = 0.008\<rparr>,
      \<lparr>radius = 19, size_d = 0.9, color = 0xd7af70, speed = 0.006\<rparr>,
      \<lparr>radius = 23, size_d = 0.8, color = 0x7fb4ff, speed = 0.004\<rparr>,
      \<lparr>radius = 27, size_d = 0.7, color = 0x5875e1, speed = 0.003\<rparr>]"

text \<open>
  A planet mesh of \<^verbatim>\<open>app.js\<close>: its \<^verbatim>\<open>userData\<close> (\<open>ud_speed\<close> is the field \<^verbatim>\<open>speed\<close>) and its
  position in the scene.
\<close>

record userData_rec =
  orbitRadius :: real
  angle :: real
  ud_speed :: real

record planet =
  userData :: userData_rec
  position :: vec3

text \<open>
  \<^verbatim>\<open>createPlanet(data)\<close>; \<open>rnd\<close> is the value \<^verbatim>\<open>Math.random()\<close> returns in this call. A new
  mesh sits at the origin until it is moved.
\<close>

definition createPlanet :: "planet_datum \<Rightarrow> real \<Rightarrow> planet" where
  "createPlanet data rnd =
     \<lparr>userData = \<lparr>orbitRadius = radius data, angle = rnd * pi * 2, ud_speed = speed data\<rparr>,
      position = (0, 0, 0)\<rparr>"

text \<open>The state of \<^verbatim>\<open>app.js\<close>: the display, the planets, the joystick vector and the two camera angles.\<close>

record app_state = display +
  planets :: "planet list"
  joystickVector :: "real \<times> real"
  phi :: real
  theta :: real

definition cameraDistance :: real where
  "cameraDistance = 40"

text \<open>The body of the \<^verbatim>\<open>forEach\<close> in \<^verbatim>\<open>updatePlanets\<close>, for one planet.\<close>

definition updatePlanet :: "planet \<Rightarrow> planet" where
  "updatePlanet p =
     (let ud = (userData p)\<lparr>angle := angle (userData p) + ud_speed (userData p)\<rparr>
      in \<lparr>userData = ud,
          position = (orbitRadius ud * cos (angle ud), 0, orbitRadius ud * sin (angle ud))\<rparr>)"

definition updatePlanets :: "app_state \<Rightarrow> app_state" where
  "updatePlanets s = s\<lparr>planets := map updatePlanet (planets s)\<rparr>"

definition updateCamera :: "app_state \<Rightarrow> app_state" where
  "updateCamera s =
     (let phi1 = phi s - fst (joystickVector s) * 0.05;
          theta1 = theta s - snd (joystickVector s) * 0.05;
          maxTheta = pi / 2 - 0.1;
          minTheta = - maxTheta;
          theta2 = max minTheta (min maxTheta theta1);
          x = cameraDistance * cos theta2 * sin phi1;
          y = cameraDistance * sin theta2;
          z = cameraDistance * cos theta2 * cos phi1
      in s\<lparr>phi := phi1, theta := theta2,
           camera := (camera s)\<lparr>cam_position := (x, y, z)\<rparr>\<rparr>)"

text \<open>One frame of \<^verbatim>\<open>app.js\<close>: \<^verbatim>\<open>updatePlanets(); updateCamera(); renderer.render(scene, camera)\<close>.\<close>

definition animate_app :: "app_state \<Rightarrow> app_state" where
  "animate_app s = updateCamera (updatePlanets s)"

text \<open>The two joystick handlers of \<^verbatim>\<open>app.js\<close>.\<close>

definition on_move_app :: "nipple_data \<Rightarrow> app_state \<Rightarrow> app_state" where
  "on_move_app d s = s\<lparr>joystickVector := (data_vector_x d, data_vector_y d)\<rparr>"

definition on_end_app :: "app_state \<Rightarrow> app_state" where
  "on_end_app s = s\<lparr>joystickVector := (0, 0)\<rparr>"

fun step_app :: "event \<Rightarrow> app_state \<Rightarrow> app_state" where
  "step_app (JoystickMove d) s = on_move_app d s"
| "step_app JoystickEnd s = on_end_app s"
| "step_app AnimationFrame s = animate_app s"
| "step_app (Resize w h) s = resize w h s"

definition run_app :: "event list \<Rightarrow> app_state \<Rightarrow> app_state" where
  "run_app evs s = fold step_app evs s"

text \<open>
  The state the top-level code of \<^verbatim>\<open>app.js\<close> builds before its first call of \<^verbatim>\<open>animate\<close>:
  \<open>rnd i\<close> is the result of the \<open>i\<close>-th call of \<^verbatim>\<open>Math.random\<close>, \<open>w0\<close> and \<open>h0\<close> are the window's
  dimensions. A new camera sits at the origin.
\<close>

definition startup_app :: "(nat \<Rightarrow> real) \<Rightarrow> real \<Rightarrow> real \<Rightarrow> app_state" where
  "startup_app rnd w0 h0 =
     \<lparr>camera = \<lparr>cam_position = (0, 0, 0), cam_aspect = w0 / h0, cam_projection_aspect = w0 / h0\<rparr>,
      renderer_size = (w0, h0),
      planets = map (\<lambda>(i, data). createPlanet data (rnd i)) (enumerate 0 orbitData),
      joystickVector = (0, 0),
      phi = 0,
      theta = 0\<rparr>"

text \<open>The script ends with a call of \<^verbatim>\<open>animate()\<close>: the first frame runs before any event.\<close>

definition init_app :: "(nat \<Rightarrow> real) \<Rightarrow> real \<Rightarrow> real \<Rightarrow> app_state" where
  "init_app rnd w0 h0 = animate_app (startup_app rnd w0 h0)"


section \<open>The script.js variant\<close>

definition planetsData :: "planet_datum list" where
  "planetsData =
     [\<lparr>radius = 4, size_d = 0.3, color = 0x888888, speed = 0.02\<rparr>,
      \<lparr>radius = 6, size_d = 0.5, color = 0xffa500, speed = 0.015\<rparr>,
      \<lparr>radius = 8, size_d = 0.5, color = 0x0000ff, speed = 0.01\<rparr>,
      \<lparr>radius = 10, size_d = 0.4, color = 0xff0000, speed = 0.008\<rparr>,
      \<lparr>radius = 13, size_d = 1.2, color = 0xffe4b5, speed = 0.006\<rparr>,
      \<lparr>radius = 16, size_d = 1.0, color = 0xf5deb3, speed = 0.005\<rparr>,
      \<lparr>radius = 18, size_d = 0.7, color = 0xadd8e6, speed = 0.004\<rparr>,
      \<lparr>radius = 20, size_d = 0.6, color = 0x4169e1, speed = 0.003\<rparr>]"

text \<open>
  An entry of \<^verbatim>\<open>planetPivots\<close>: \<^verbatim>\<open>{ pivot, speed }\<close>, where the pivot carries its
  \<^verbatim>\<open>rotation.y\<close> and its one child, the mesh, sits at \<^verbatim>\<open>position.x = data.radius\<close>.
\<close>

record planetPivot =
  pivot_rotation_y :: real
  mesh_position_x :: real
  pivot_speed :: real

record script_state = display +
  planetPivots :: "planetPivot list"
  yaw :: real
  pitch :: real
  moveX :: real
  moveY :: real

definition camRadius :: real where
  "camRadius = 30"

text \<open>The body of \<^verbatim>\<open>planetsData.forEach\<close>: a fresh pivot is unrotated.\<close>

definition make_pivot :: "planet_datum \<Rightarrow> planetPivot" where
  "make_pivot data = \<lparr>pivot_rotation_y = 0, mesh_position_x = radius data, pivot_speed = speed data\<rparr>"

text \<open>One frame of \<^verbatim>\<open>script.js\<close>: the function \<^verbatim>\<open>animate\<close>.\<close>

definition animate_script :: "script_state \<Rightarrow> script_state" where
  "animate_script s =
     (let pivots = map (\<lambda>obj. obj\<lparr>pivot_rotation_y := pivot_rotation_y obj + pivot_speed obj\<rparr>)
                       (planetPivots s);
          yaw1 = yaw s - moveX s * 0.05;
          pitch1 = pitch s + moveY s * 0.05;
          maxPitch = pi / 2 - 0.1;
          pitch2 = max (- maxPitch) (min maxPitch pitch1);
          x = camRadius * cos pitch2 * sin yaw1;
          y = camRadius * sin pitch2;
          z = camRadius * cos pitch2 * cos yaw1
      in s\<lparr>planetPivots := pivots, yaw := yaw1, pitch := pitch2,
           camera := (camera s)\<lparr>cam_position := (x, y, z)\<rparr>\<rparr>)"

text \<open>The two joystick handlers of \<^verbatim>\<open>script.js\<close>.\<close>

definition on_move_script :: "nipple_data \<Rightarrow> script_state \<Rightarrow> script_state" where
  "on_move_script d s =
     (let rad = data_angle_radian d;
          distance = min (data_distance d / 50) 1
      in s\<lparr>moveX := cos rad * distance, moveY := sin rad * distance\<rparr>)"

definition on_end_script :: "script_state \<Rightarrow> script_state" where
  "on_end_script s = s\<lparr>moveX := 0, moveY := 0\<rparr>"

fun step_script :: "event \<Rightarrow> script_state \<Rightarrow> script_state" where
  "step_script (JoystickMove d) s = on_move_script d s"
| "step_script JoystickEnd s = on_end_script s"
| "step_script AnimationFrame s = animate_script s"
| "step_script (Resize w h) s = resize w h s"

definition run_script :: "event list \<Rightarrow> script_state \<Rightarrow> script_state" where
  "run_script evs s = fold step_script evs s"

text \<open>
  The state the top-level code of \<^verbatim>\<open>script.js\<close> builds before its first call of \<^verbatim>\<open>animate\<close>,
  in a window of \<open>w0\<close> by \<open>h0\<close>: the camera is put at \<^verbatim>\<open>(0, 5, camRadius)\<close>.
\<close>

definition startup_script :: "real \<Rightarrow> real \<Rightarrow> script_state" where
  "startup_script w0 h0 =
     \<lparr>camera = \<lparr>cam_position = (0, 5, camRadius), cam_aspect = w0 / h0,
                 cam_projection_aspect = w0 / h0\<rparr>,
      renderer_size = (w0, h0),
      planetPivots = map make_pivot planetsData,
      yaw = 0,
      pitch = 0,
      moveX = 0,
      moveY = 0\<rparr>"

text \<open>The script ends with a call of \<^verbatim>\<open>animate()\<close>: the first frame runs before any event.\<close>

definition init_script :: "real \<Rightarrow> real \<Rightarrow> script_state" where
  "init_script w0 h0 = animate_script (startup_script w0 h0)"


section \<open>The main.js variant\<close>

text \<open>
  A row of \<^verbatim>\<open>PLANETS\<close> (\<open>body_name\<close>, \<open>body_radius\<close> and \<open>body_color\<close> are the fields \<^verbatim>\<open>name\<close>,
  \<^verbatim>\<open>radius\<close> and \<^verbatim>\<open>color\<close>). A row without a \<^verbatim>\<open>satellites\<close> field has the empty list: the
  script loops over the satellites only.
\<close>

record bodyConfig =
  body_name :: string
  body_radius :: real
  distance :: real
  body_color :: nat
  orbitSpeed :: real
  rotationSpeed :: real

record planetConfig = bodyConfig +
  satellites :: "bodyConfig list"

definition PLANETS :: "planetConfig list" where
  "PLANETS =
     [\<lparr>body_name = ''Mercury'', body_radius = 0.383, distance = 6, body_color = 0xb2b2b2,
       orbitSpeed = 0.02, rotationSpeed = 0.004, satellites = []\<rparr>,
      \<lparr>body_name = ''Venus'', body_radius = 0.95, distance = 9, body_color = 0xeed4a0,
       orbitSpeed = 0.015, rotationSpeed = 0.0025, satellites = []\<rparr>,
      \<lparr>body_name = ''Earth'', body_radius = 1, distance = 12, body_color = 0x2f78ff,
       orbitSpeed = 0.012, rotationSpeed = 0.02,
       satellites =
         [\<lparr>body_name = ''Moon'', body_radius = 0.27, distance = 2.2, body_color = 0xdddddd,
           orbitSpeed = 0.04, rotationSpeed = 0.01\<rparr>]\<rparr>,
      \<lparr>body_name = ''Mars'', body_radius = 0.53, distance = 16, body_color = 0xff5c33,
       orbitSpeed = 0.01, rotationSpeed = 0.018, satellites = []\<rparr>,
      \<lparr>body_name = ''Jupiter'', body_radius = 11.2 * 0.3, distance = 24, body_color = 0xf5d6a3,
       orbitSpeed = 0.005, rotationSpeed = 0.025, satellites = []\<rparr>,
      \<lparr>body_name = ''Saturn'', body_radius = 9.45 * 0.3, distance = 32, body_color = 0xf8d8a0,
       orbitSpeed = 0.004, rotationSpeed = 0.022, satellites = []\<rparr>,
      \<lparr>body_name = ''Uranus'', body_radius = 4.0 * 0.3, distance = 38, body_color = 0x66ccff,
       orbitSpeed = 0.0035, rotationSpeed = 0.018, satellites = []\<rparr>,
      \<lparr>body_name = ''Neptune'', body_radius = 3.9 * 0.3, distance = 45, body_color = 0x3366ff,
       orbitSpeed = 0.003, rotationSpeed = 0.016, satellites = []\<rparr>]"

text \<open>
  The scene graph is a store of objects, addressed by their index. An object has a parent (or
  \<open>None\<close> when it is added to the scene itself, which sits unrotated at the origin), the
  \<^verbatim>\<open>position.x\<close> the script gives it and its \<^verbatim>\<open>rotation.y\<close>; the script leaves every other
  component of position and rotation at zero. The lights, the sun and the star field are not in
  the store: nothing moves them.
\<close>

record object3D =
  parent :: "nat option"
  position_x :: real
  rotation_y :: real

text \<open>An entry of \<^verbatim>\<open>orbitObjects\<close>; \<open>pivot\<close> and \<open>mesh\<close> refer to objects of the store.\<close>

record orbitObject =
  pivot :: nat
  mesh :: nat
  oo_orbitSpeed :: real
  oo_rotationSpeed :: real

text \<open>
  The context \<^verbatim>\<open>buildSolarSystem\<close> returns, with \<^verbatim>\<open>previousTime\<close> of \<^verbatim>\<open>animateSystem\<close>. The
  orbit controls read pointer input, which is not modelled: the camera stays where it is put.
\<close>

record main_context = display +
  objects :: "object3D list"
  orbitObjects :: "orbitObject list"
  previousTime :: real

text \<open>The body of \<^verbatim>\<open>planetConfig.satellites.forEach\<close>, for the planet mesh \<open>planetMesh\<close>.\<close>

definition build_satellite ::
  "nat \<Rightarrow> bodyConfig \<Rightarrow> object3D list \<times> orbitObject list \<Rightarrow> object3D list \<times> orbitObject list"
where
  "build_satellite planetMesh satConfig acc =
     (case acc of (objs, oos) \<Rightarrow>
        let satPivot = length objs;
            objs1 = objs @ [\<lparr>parent = Some planetMesh, position_x = 0, rotation_y = 0\<rparr>];
            satMesh = length objs1;
            objs2 = objs1 @ [\<lparr>parent = Some satPivot, position_x = distance satConfig,
                               rotation_y = 0\<rparr>]
        in (objs2,
            oos @ [\<lparr>pivot = satPivot, mesh = satMesh, oo_orbitSpeed = orbitSpeed satConfig,
                     oo_rotationSpeed = rotationSpeed satConfig\<rparr>]))"

text \<open>The body of \<^verbatim>\<open>PLANETS.forEach\<close>.\<close>

definition build_planet ::
  "planetConfig \<Rightarrow> object3D list \<times> orbitObject list \<Rightarrow> object3D list \<times> orbitObject list"
where
  "build_planet planetConfig acc =
     (case acc of (objs, oos) \<Rightarrow>
        let planetPivot = length objs;
            objs1 = objs @ [\<lparr>parent = None, position_x = 0, rotation_y = 0\<rparr>];
            planetMesh = length objs1;
            objs2 = objs1 @ [\<lparr>parent = Some planetPivot, position_x = distance planetConfig,
                               rotation_y = 0\<rparr>];
            oos1 = oos @ [\<lparr>pivot = planetPivot, mesh = planetMesh,
                             oo_orbitSpeed = orbitSpeed planetConfig,
                             oo_rotationSpeed = rotationSpeed planetConfig\<rparr>]
        in fold (build_satellite planetMesh) (satellites planetConfig) (objs2, oos1))"

definition buildSolarSystem :: "real \<Rightarrow> real \<Rightarrow> main_context" where
  "buildSolarSystem w0 h0 =
     (case fold build_planet PLANETS ([], []) of (objs, oos) \<Rightarrow>
        \<lparr>camera = \<lparr>cam_position = (0, 20, 80), cam_aspect = w0 / h0,
                    cam_projection_aspect = w0 / h0\<rparr>,
         renderer_size = (w0, h0),
         objects = objs,
         orbitObjects = oos,
         previousTime = 0\<rparr>)"

text \<open>\<^verbatim>\<open>o.rotation.y += da\<close> for the object \<open>i\<close> of the store.\<close>

definition rotate_y :: "nat \<Rightarrow> real \<Rightarrow> object3D list \<Rightarrow> object3D list" where
  "rotate_y i da objs = objs[i := (objs ! i)\<lparr>rotation_y := rotation_y (objs ! i) + da\<rparr>]"

text \<open>The body of \<^verbatim>\<open>orbitObjects.forEach\<close> in \<^verbatim>\<open>render\<close>.\<close>

definition update_orbit_object :: "real \<Rightarrow> orbitObject \<Rightarrow> object3D list \<Rightarrow> object3D list" where
  "update_orbit_object deltaSeconds obj objs =
     rotate_y (mesh obj) (oo_rotationSpeed obj * deltaSeconds * 60)
       (rotate_y (pivot obj) (oo_orbitSpeed obj * deltaSeconds * 60) objs)"

text \<open>The function \<^verbatim>\<open>render(time)\<close> of \<^verbatim>\<open>animateSystem\<close>; \<open>time\<close> is in milliseconds.\<close>

definition render :: "real \<Rightarrow> main_context \<Rightarrow> main_context" where
  "render time ctx =
     (let delta = time - previousTime ctx;
          deltaSeconds = delta * 0.001;
          objs = fold (update_orbit_object deltaSeconds) (orbitObjects ctx) (objects ctx)
      in ctx\<lparr>objects := objs, previousTime := time\<rparr>)"

text \<open>\<open>n\<close> frames, each \<open>d\<close> seconds (\<open>1000 * d\<close> milliseconds) after the one before.\<close>

definition render_frames :: "nat \<Rightarrow> real \<Rightarrow> main_context \<Rightarrow> main_context" where
  "render_frames n d ctx = ((\<lambda>c. render (previousTime c + 1000 * d) c) ^^ n) ctx"

text \<open>The objects an \<^verbatim>\<open>orbitObjects\<close> list refers to, in the order of the list.\<close>

definition orbit_refs :: "orbitObject list \<Rightarrow> nat list" where
  "orbit_refs oos = concat (map (\<lambda>obj. [pivot obj, mesh obj]) oos)"


subsection \<open>World positions in the scene graph\<close>

text \<open>
  The scripts never compute a world position: the scene-graph library composes the transforms
  of an object and its ancestors, and its code is not among the sources. The spec has every
  Body positioned in a frame attached to its parent, and asks a reimplementation to "maintain
  an explicit tree of local transforms and compute each Body's world position by composing
  transforms root-to-leaf" over an "arena of Body records + parent-index references". The
  definitions of this subsection follow that description.
\<close>

text \<open>
  Modelled from the spec: a transform of the scene-graph library, missing from the sources. It
  is a rotation about the vertical axis, given by its cosine and sine, followed by a
  translation: it maps \<open>v\<close> to \<open>R v + t\<close>.
\<close>

record transform =
  t_cos :: real
  t_sin :: real
  t_pos :: vec3

text \<open>
  Modelled from the spec: the library's rotation of \<open>v\<close> about the y axis by the angle with
  cosine \<open>c\<close> and sine \<open>s\<close>, in the sense of the spec's
  \<open>localPosition = (distance * cos(angle), 0, distance * sin(angle))\<close>: the point \<open>(d, 0, 0)\<close>
  goes to \<open>(d * c, 0, d * s)\<close>.
\<close>

definition rotate_about_y :: "real \<Rightarrow> real \<Rightarrow> vec3 \<Rightarrow> vec3" where
  "rotate_about_y c s v = (case v of (x, y, z) \<Rightarrow> (c * x - s * z, y, s * x + c * z))"

text \<open>Modelled from the spec: the library's sum of two vectors.\<close>

definition vec_add :: "vec3 \<Rightarrow> vec3 \<Rightarrow> vec3" where
  "vec_add u v = (case u of (a, b, c) \<Rightarrow> case v of (x, y, z) \<Rightarrow> (a + x, b + y, c + z))"

text \<open>
  Modelled from the spec: the library's local transform of an object, in its parent's frame:
  rotate by \<^verbatim>\<open>rotation.y\<close>, then move to \<^verbatim>\<open>position\<close>.
\<close>

definition localTransform :: "object3D \<Rightarrow> transform" where
  "localTransform obj =
     \<lparr>t_cos = cos (rotation_y obj), t_sin = sin (rotation_y obj), t_pos = (position_x obj, 0, 0)\<rparr>"

text \<open>Modelled from the spec: the library's composition of transforms, first \<open>B\<close>, then \<open>A\<close>.\<close>

definition compose :: "transform \<Rightarrow> transform \<Rightarrow> transform" where
  "compose A B =
     \<lparr>t_cos = t_cos A * t_cos B - t_sin A * t_sin B,
      t_sin = t_sin A * t_cos B + t_cos A * t_sin B,
      t_pos = vec_add (rotate_about_y (t_cos A) (t_sin A) (t_pos B)) (t_pos A)\<rparr>"

text \<open>
  Modelled from the spec: the library's world transform of object \<open>i\<close>, in the scene's frame,
  composed from the root down. The script creates every parent before its children, so a
  parent has the smaller index; an object whose parent index is not smaller is taken as a
  root.
\<close>

function worldTransform :: "object3D list \<Rightarrow> nat \<Rightarrow> transform" where
  "worldTransform objs i =
     (case parent (objs ! i) of
        None \<Rightarrow> localTransform (objs ! i)
      | Some p \<Rightarrow>
          if p < i then compose (worldTransform objs p) (localTransform (objs ! i))
          else localTransform (objs ! i))"
  by pat_completeness auto
termination
  by (relation "measure snd") auto

text \<open>Modelled from the spec: the library's world position of object \<open>i\<close>.\<close>

definition worldPosition :: "object3D list \<Rightarrow> nat \<Rightarrow> vec3" where
  "worldPosition objs i = t_pos (worldTransform objs i)"

text \<open>
  The store in which object \<open>i\<close> has the \<^verbatim>\<open>rotation.y\<close> \<open>a\<close> and all else is as in \<open>objs\<close>: it
  serves to state what a change of one angle does while the others are held fixed.
\<close>

definition set_rotation_y :: "nat \<Rightarrow> real \<Rightarrow> object3D list \<Rightarrow> object3D list" where
  "set_rotation_y i a objs = objs[i := (objs ! i)\<lparr>rotation_y := a\<rparr>]"


section \<open>Auxiliary notions for the statements\<close>

text \<open>
  The camera of \<^verbatim>\<open>script.js\<close> is settled when the pitch is within the limit and the camera sits
  where yaw and pitch put it; likewise for \<^verbatim>\<open>app.js\<close>.
\<close>

definition settled_script :: "script_state \<Rightarrow> bool" where
  "settled_script s \<longleftrightarrow>
     \<bar>pitch s\<bar> \<le> pi / 2 - 0.1 \<and>
     cam_position (camera s) =
       (camRadius * cos (pitch s) * sin (yaw s), camRadius * sin (pitch s),
        camRadius * cos (pitch s) * cos (yaw s))"

definition settled_app :: "app_state \<Rightarrow> bool" where
  "settled_app s \<longleftrightarrow>
     \<bar>theta s\<bar> \<le> pi / 2 - 0.1 \<and>
     cam_position (camera s) =
       (cameraDistance * cos (theta s) * sin (phi s), cameraDistance * sin (theta s),
        cameraDistance * cos (theta s) * cos (phi s))"

text \<open>
  What the joystick library delivers with a \<^verbatim>\<open>move\<close> event: a distance that is not negative
  and a vector whose components are normalized to \<open>[-1, 1]\<close>. The other events carry nothing
  to constrain.
\<close>

fun joystick_normalized :: "event \<Rightarrow> bool" where
  "joystick_normalized (JoystickMove d) \<longleftrightarrow>
     0 \<le> data_distance d \<and> \<bar>data_vector_x d\<bar> \<le> 1 \<and> \<bar>data_vector_y d\<bar> \<le> 1"
| "joystick_normalized JoystickEnd \<longleftrightarrow> True"
| "joystick_normalized AnimationFrame \<longleftrightarrow> True"
| "joystick_normalized (Resize w h) \<longleftrightarrow> True"

fun is_move :: "event \<Rightarrow> bool" where
  "is_move (JoystickMove d) \<longleftrightarrow> True"
| "is_move JoystickEnd \<longleftrightarrow> False"
| "is_move AnimationFrame \<longleftrightarrow> False"
| "is_move (Resize w h) \<longleftrightarrow> False"

text \<open>A full push of the stick: up for \<^verbatim>\<open>script.js\<close>, which adds the vertical input to the pitch, down for \<^verbatim>\<open>app.js\<close>, which subtracts it.\<close>

definition push_up :: nipple_data where
  "push_up = \<lparr>data_angle_radian = pi / 2, data_distance = 50, data_vector_x = 0, data_vector_y = 1\<rparr>"

definition push_down :: nipple_data where
  "push_down = \<lparr>data_angle_radian = - (pi / 2), data_distance = 50, data_vector_x = 0, data_vector_y = - 1\<rparr>"

text \<open>A full push to the right: the input vector \<open>{x = 1, y = 0}\<close>.\<close>

definition push_right :: nipple_data where
  "push_right = \<lparr>data_angle_radian = 0, data_distance = 50, data_vector_x = 1, data_vector_y = 0\<rparr>"

section \<open>Properties\<close>

subsection \<open>Clamping and the sphere\<close>

lemma fold_invariant:
  assumes "P s" and "\<And>e s. P s \<Longrightarrow> P (f e s)"
  shows "P (fold f evs s)"
  using assms(1) by (induction evs arbitrary: s) (simp_all add: assms(2))

lemma maxTheta_pos: "0 < pi / 2 - (0.1::real)"
  using pi_ge_two by simp

lemma clamp_abs: "0 \<le> (m::real) \<Longrightarrow> \<bar>max (- m) (min m t)\<bar> \<le> m"
  by (simp add: abs_le_iff max_def min_def)

lemma clamp_id: "\<bar>t\<bar> \<le> (m::real) \<Longrightarrow> max (- m) (min m t) = t"
  by (simp add: abs_le_iff max_def min_def)

lemma clamp_limit_id:
  "\<bar>t\<bar> \<le> pi / 2 - 1 / 10 \<Longrightarrow> max (1 / 10 - pi / 2) (min (pi / 2 - 1 / 10) t) = t"
  using clamp_id [of t "pi / 2 - 1 / 10"] by simp

lemma clamp_push:
  "0 < (m::real) \<Longrightarrow> - m \<le> x \<Longrightarrow> 0 \<le> d \<Longrightarrow> max (- m) (min m (min m x + d)) = min m (x + d)"
  by (simp add: max_def min_def)

lemma sin_cos_mult_one: "sin (a::real) * sin a + cos a * cos a = 1"
  using sin_cos_squared_add [of a] by (simp add: power2_eq_square)

lemma sphere_length:
  assumes R: "0 \<le> R"
  shows "vec_length (R * cos t * sin p, R * sin t, R * cos t * cos p) = R"
proof -
  have "R * cos t * sin p * (R * cos t * sin p) + R * sin t * (R * sin t)
        + R * cos t * cos p * (R * cos t * cos p)
      = R * R * (cos t * cos t * (sin p * sin p + cos p * cos p) + sin t * sin t)"
    by (simp only: algebra_simps)
  also have "\<dots> = R * R * (sin t * sin t + cos t * cos t)"
    by (simp add: sin_cos_mult_one)
  also have "\<dots> = R * R"
    by (simp add: sin_cos_mult_one)
  finally show ?thesis using R by (simp add: vec_length_def)
qed

subsection \<open>The camera of script.js\<close>

lemma animate_script_settled: "settled_script (animate_script s)"
  using maxTheta_pos by (simp add: settled_script_def animate_script_def Let_def clamp_abs)

lemma step_script_settled: "settled_script s \<Longrightarrow> settled_script (step_script e s)"
  by (cases e)
     (simp_all add: animate_script_settled,
      simp_all add: settled_script_def on_move_script_def on_end_script_def resize_def
        updateProjectionMatrix_def Let_def)

lemma run_script_settled: "settled_script s \<Longrightarrow> settled_script (run_script evs s)"
  unfolding run_script_def by (rule fold_invariant) (simp_all add: step_script_settled)

lemma reachable_script_settled: "settled_script (run_script evs (init_script w0 h0))"
  by (simp add: run_script_settled init_script_def animate_script_settled)

lemma settled_script_length: "settled_script s \<Longrightarrow> vec_length (cam_position (camera s)) = camRadius"
  by (simp add: settled_script_def sphere_length camRadius_def)

lemma settled_script_zero_input:
  "settled_script s \<Longrightarrow> moveX s = 0 \<Longrightarrow> moveY s = 0 \<Longrightarrow>
   yaw (animate_script s) = yaw s \<and> pitch (animate_script s) = pitch s \<and>
   camera (animate_script s) = camera s"
  by (simp add: settled_script_def animate_script_def Let_def clamp_limit_id)

lemma settled_script_push_right:
  "settled_script s \<Longrightarrow> moveX s = 1 \<Longrightarrow> moveY s = 0 \<Longrightarrow>
   yaw (animate_script s) = yaw s - 0.05 \<and> pitch (animate_script s) = pitch s"
  by (simp add: settled_script_def animate_script_def Let_def clamp_limit_id)

lemma animate_script_moveY: "moveY (animate_script s) = moveY s"
  by (simp add: animate_script_def Let_def)

lemma push_frames_script:
  "moveY s = 1 \<Longrightarrow> \<bar>pitch s\<bar> \<le> pi / 2 - 0.1 \<Longrightarrow>
   moveY ((animate_script ^^ n) s) = 1 \<and>
   pitch ((animate_script ^^ n) s) = min (pi / 2 - 0.1) (pitch s + real n * 0.05)"
proof (induction n)
  case 0
  then show ?case by (simp add: min_def abs_le_iff)
next
  case (Suc n)
  then have mv: "moveY ((animate_script ^^ n) s) = 1"
    and p: "pitch ((animate_script ^^ n) s) = min (pi / 2 - 0.1) (pitch s + real n * 0.05)"
    by simp_all
  have lo: "- (pi / 2 - 0.1) \<le> pitch s + real n * 0.05"
    using Suc.prems(2) by (simp add: abs_le_iff)
  have "pitch (animate_script ((animate_script ^^ n) s))
          = max (- (pi / 2 - 0.1)) (min (pi / 2 - 0.1) (min (pi / 2 - 0.1) (pitch s + real n * 0.05) + 0.05))"
    by (simp add: animate_script_def Let_def mv p)
  also have "\<dots> = min (pi / 2 - 0.1) (pitch s + real n * 0.05 + 0.05)"
    using maxTheta_pos lo by (intro clamp_push) simp_all
  also have "pitch s + real n * 0.05 + 0.05 = pitch s + real (Suc n) * 0.05"
    by (simp add: field_simps)
  finally show ?case
    by (simp add: animate_script_moveY mv)
qed

lemma step_script_frame: "step_script AnimationFrame = animate_script"
  by (rule ext) simp

lemma ten_thousand_pushes_script:
  "pitch (run_script (JoystickMove push_up # replicate 10000 AnimationFrame) (init_script w0 h0))
     = pi / 2 - 0.1"
proof -
  let ?s = "on_move_script push_up (init_script w0 h0)"
  have mv: "moveY ?s = 1"
    by (simp add: on_move_script_def push_up_def Let_def)
  have "pitch ?s = 0"
    using maxTheta_pos
    by (simp add: on_move_script_def init_script_def animate_script_def startup_script_def Let_def)
  moreover from this have "\<bar>pitch ?s\<bar> \<le> pi / 2 - 0.1"
    using maxTheta_pos by simp
  ultimately have "pitch ((animate_script ^^ 10000) ?s) = min (pi / 2 - 0.1) (real 10000 * 0.05)"
    using push_frames_script [OF mv, of 10000] by simp
  also have "\<dots> = pi / 2 - 0.1"
    using pi_less_4 by (simp add: min_def)
  finally show ?thesis
    by (simp add: run_script_def step_script_frame)
qed


subsection \<open>The camera of app.js\<close>

lemma updateCamera_settled: "settled_app (updateCamera s)"
  using maxTheta_pos by (simp add: settled_app_def updateCamera_def Let_def clamp_abs)

lemma animate_app_settled: "settled_app (animate_app s)"
  by (simp add: animate_app_def updateCamera_settled)

lemma step_app_settled: "settled_app s \<Longrightarrow> settled_app (step_app e s)"
  by (cases e)
     (simp_all add: animate_app_settled,
      simp_all add: settled_app_def on_move_app_def on_end_app_def resize_def
        updateProjectionMatrix_def Let_def)

lemma run_app_settled: "settled_app s \<Longrightarrow> settled_app (run_app evs s)"
  unfolding run_app_def by (rule fold_invariant) (simp_all add: step_app_settled)

lemma reachable_app_settled: "settled_app (run_app evs (init_app rnd w0 h0))"
  by (simp add: run_app_settled init_app_def animate_app_settled)

lemma settled_app_length: "settled_app s \<Longrightarrow> vec_length (cam_position (camera s)) = cameraDistance"
  by (simp add: settled_app_def sphere_length cameraDistance_def)

lemma settled_app_zero_input:
  "settled_app s \<Longrightarrow> joystickVector s = (0, 0) \<Longrightarrow>
   phi (animate_app s) = phi s \<and> theta (animate_app s) = theta s \<and>
   camera (animate_app s) = camera s"
  by (simp add: settled_app_def animate_app_def updatePlanets_def updateCamera_def Let_def
      clamp_limit_id)

lemma settled_app_push_right:
  "settled_app s \<Longrightarrow> joystickVector s = (1, 0) \<Longrightarrow>
   phi (animate_app s) = phi s - 0.05 \<and> theta (animate_app s) = theta s"
  by (simp add: settled_app_def animate_app_def updatePlanets_def updateCamera_def Let_def
      clamp_limit_id)

lemma animate_app_joystickVector: "joystickVector (animate_app s) = joystickVector s"
  by (simp add: animate_app_def updatePlanets_def updateCamera_def Let_def)

lemma push_frames_app:
  "joystickVector s = (0, - 1) \<Longrightarrow> \<bar>theta s\<bar> \<le> pi / 2 - 0.1 \<Longrightarrow>
   joystickVector ((animate_app ^^ n) s) = (0, - 1) \<and>
   theta ((animate_app ^^ n) s) = min (pi / 2 - 0.1) (theta s + real n * 0.05)"
proof (induction n)
  case 0
  then show ?case by (simp add: min_def abs_le_iff)
next
  case (Suc n)
  then have mv: "joystickVector ((animate_app ^^ n) s) = (0, - 1)"
    and p: "theta ((animate_app ^^ n) s) = min (pi / 2 - 0.1) (theta s + real n * 0.05)"
    by simp_all
  have lo: "- (pi / 2 - 0.1) \<le> theta s + real n * 0.05"
    using Suc.prems(2) by (simp add: abs_le_iff)
  have "theta (animate_app ((animate_app ^^ n) s))
          = max (- (pi / 2 - 0.1)) (min (pi / 2 - 0.1) (min (pi / 2 - 0.1) (theta s + real n * 0.05) + 0.05))"
    by (simp add: animate_app_def updatePlanets_def updateCamera_def Let_def mv p)
  also have "\<dots> = min (pi / 2 - 0.1) (theta s + real n * 0.05 + 0.05)"
    using maxTheta_pos lo by (intro clamp_push) simp_all
  also have "theta s + real n * 0.05 + 0.05 = theta s + real (Suc n) * 0.05"
    by (simp add: field_simps)
  finally show ?case
    by (simp add: animate_app_joystickVector mv)
qed

lemma step_app_frame: "step_app AnimationFrame = animate_app"
  by (rule ext) simp

lemma ten_thousand_pushes_app:
  "theta (run_app (JoystickMove push_down # replicate 10000 AnimationFrame) (init_app rnd w0 h0))
     = pi / 2 - 0.1"
proof -
  let ?s = "on_move_app push_down (init_app rnd w0 h0)"
  have mv: "joystickVector ?s = (0, - 1)"
    by (simp add: on_move_app_def push_down_def)
  have "theta ?s = 0"
    using maxTheta_pos
    by (simp add: on_move_app_def init_app_def animate_app_def updatePlanets_def updateCamera_def
        startup_app_def Let_def)
  moreover from this have "\<bar>theta ?s\<bar> \<le> pi / 2 - 0.1"
    using maxTheta_pos by simp
  ultimately have "theta ((animate_app ^^ 10000) ?s) = min (pi / 2 - 0.1) (real 10000 * 0.05)"
    using push_frames_app [OF mv, of 10000] by simp
  also have "\<dots> = pi / 2 - 0.1"
    using pi_less_4 by (simp add: min_def)
  finally show ?thesis
    by (simp add: run_app_def step_app_frame)
qed


section \<open>The camera claims\<close>

text \<open>
  Claim C1. After every per-frame camera update the polar angle (the pitch of \<^verbatim>\<open>script.js\<close>,
  the theta of \<^verbatim>\<open>app.js\<close>) is at most \<open>pi / 2 - 0.1\<close> in absolute value, from whatever state and
  with whatever input the update runs; hence in every state the program reaches through any
  sequence of joystick events, frames and resizes, where the angle lies strictly between
  \<open>- pi / 2\<close> and \<open>pi / 2\<close>. Under a full push held for 10000 consecutive frames the angle ends
  exactly at the limit \<open>pi / 2 - 0.1\<close>.
\<close>

theorem polar_angle_within_limit:
  "\<bar>pitch (animate_script s)\<bar> \<le> pi / 2 - 0.1
   \<and> \<bar>theta (updateCamera a)\<bar> \<le> pi / 2 - 0.1
   \<and> \<bar>pitch (run_script evs (init_script w0 h0))\<bar> \<le> pi / 2 - 0.1
   \<and> - (pi / 2) < pitch (run_script evs (init_script w0 h0))
   \<and> pitch (run_script evs (init_script w0 h0)) < pi / 2
   \<and> \<bar>theta (run_app evs (init_app rnd w0 h0))\<bar> \<le> pi / 2 - 0.1
   \<and> - (pi / 2) < theta (run_app evs (init_app rnd w0 h0))
   \<and> theta (run_app evs (init_app rnd w0 h0)) < pi / 2
   \<and> pitch (run_script (JoystickMove push_up # replicate 10000 AnimationFrame) (init_script w0 h0))
       = pi / 2 - 0.1
   \<and> theta (run_app (JoystickMove push_down # replicate 10000 AnimationFrame) (init_app rnd w0 h0))
       = pi / 2 - 0.1"
proof -
  have 1: "\<bar>pitch (animate_script s)\<bar> \<le> pi / 2 - 0.1"
    using animate_script_settled [of s] by (simp add: settled_script_def)
  have 2: "\<bar>theta (updateCamera a)\<bar> \<le> pi / 2 - 0.1"
    using updateCamera_settled [of a] by (simp add: settled_app_def)
  have 3: "\<bar>pitch (run_script evs (init_script w0 h0))\<bar> \<le> pi / 2 - 0.1"
    using reachable_script_settled [of evs w0 h0] by (simp add: settled_script_def)
  have 4: "\<bar>theta (run_app evs (init_app rnd w0 h0))\<bar> \<le> pi / 2 - 0.1"
    using reachable_app_settled [of evs rnd w0 h0] by (simp add: settled_app_def)
  from 3 have 5: "- (pi / 2) < pitch (run_script evs (init_script w0 h0))"
    "pitch (run_script evs (init_script w0 h0)) < pi / 2"
    by (simp_all add: abs_le_iff)
  from 4 have 6: "- (pi / 2) < theta (run_app evs (init_app rnd w0 h0))"
    "theta (run_app evs (init_app rnd w0 h0)) < pi / 2"
    by (simp_all add: abs_le_iff)
  show ?thesis
    using 1 2 3 4 5 6 ten_thousand_pushes_script [of w0 h0] ten_thousand_pushes_app [of rnd w0 h0]
    by blast
qed


lemma animate_script_moveX: "moveX (animate_script s) = moveX s"
  by (simp add: animate_script_def Let_def)

lemma zero_frames_script:
  assumes "moveX s = 0" "moveY s = 0"
  shows "moveX ((animate_script ^^ Suc n) s) = 0 \<and> moveY ((animate_script ^^ Suc n) s) = 0
     \<and> camera ((animate_script ^^ Suc n) s) = camera (animate_script s)
     \<and> yaw ((animate_script ^^ Suc n) s) = yaw (animate_script s)
     \<and> pitch ((animate_script ^^ Suc n) s) = pitch (animate_script s)"
proof (induction n)
  case 0
  show ?case using assms by (simp add: animate_script_moveX animate_script_moveY)
next
  case (Suc n)
  let ?t = "(animate_script ^^ Suc n) s"
  have st: "settled_script ?t"
    by (simp add: animate_script_settled)
  from Suc have z: "moveX ?t = 0" "moveY ?t = 0" by simp_all
  have "(animate_script ^^ Suc (Suc n)) s = animate_script ?t" by simp
  with settled_script_zero_input [OF st z] Suc z show ?case
    by (simp only: animate_script_moveX animate_script_moveY)
qed

lemma zero_frames_app:
  assumes "joystickVector s = (0, 0)"
  shows "joystickVector ((animate_app ^^ Suc n) s) = (0, 0)
     \<and> camera ((animate_app ^^ Suc n) s) = camera (animate_app s)
     \<and> phi ((animate_app ^^ Suc n) s) = phi (animate_app s)
     \<and> theta ((animate_app ^^ Suc n) s) = theta (animate_app s)"
proof (induction n)
  case 0
  show ?case using assms by (simp add: animate_app_joystickVector)
next
  case (Suc n)
  let ?t = "(animate_app ^^ Suc n) s"
  have st: "settled_app ?t"
    by (simp add: animate_app_settled)
  from Suc have z: "joystickVector ?t = (0, 0)" by simp
  have "(animate_app ^^ Suc (Suc n)) s = animate_app ?t" by simp
  with settled_app_zero_input [OF st z] Suc z show ?case
    by (simp only: animate_app_joystickVector)
qed

text \<open>
  Claim C2. With zero input the camera holds still from one frame to the next. From any state
  whatever, the start-up state included, once a frame has run with the input vector at zero,
  the next frame, and any number of further frames, leave the camera, and with it the camera
  position, and both camera angles as that frame left them: the camera update is idempotent
  under zero input. In particular, in every state the program reaches (its first frame has
  run before any event), a frame with zero input changes neither the camera nor the angles.
\<close>

theorem zero_input_holds_camera:
  "(moveX s = 0 \<and> moveY s = 0
      \<longrightarrow> camera (animate_script (animate_script s)) = camera (animate_script s)
          \<and> yaw (animate_script (animate_script s)) = yaw (animate_script s)
          \<and> pitch (animate_script (animate_script s)) = pitch (animate_script s)
          \<and> camera ((animate_script ^^ Suc n) s) = camera (animate_script s)
          \<and> yaw ((animate_script ^^ Suc n) s) = yaw (animate_script s)
          \<and> pitch ((animate_script ^^ Suc n) s) = pitch (animate_script s))
   \<and> (joystickVector a = (0, 0)
      \<longrightarrow> camera (animate_app (animate_app a)) = camera (animate_app a)
          \<and> phi (animate_app (animate_app a)) = phi (animate_app a)
          \<and> theta (animate_app (animate_app a)) = theta (animate_app a)
          \<and> camera ((animate_app ^^ Suc n) a) = camera (animate_app a)
          \<and> phi ((animate_app ^^ Suc n) a) = phi (animate_app a)
          \<and> theta ((animate_app ^^ Suc n) a) = theta (animate_app a))
   \<and> (moveX (run_script evs (init_script w0 h0)) = 0 \<and> moveY (run_script evs (init_script w0 h0)) = 0
      \<longrightarrow> camera (animate_script (run_script evs (init_script w0 h0)))
            = camera (run_script evs (init_script w0 h0))
          \<and> yaw (animate_script (run_script evs (init_script w0 h0)))
            = yaw (run_script evs (init_script w0 h0))
          \<and> pitch (animate_script (run_script evs (init_script w0 h0)))
            = pitch (run_script evs (init_script w0 h0)))
   \<and> (joystickVector (run_app evs (init_app rnd w0 h0)) = (0, 0)
      \<longrightarrow> camera (animate_app (run_app evs (init_app rnd w0 h0)))
            = camera (run_app evs (init_app rnd w0 h0))
          \<and> phi (animate_app (run_app evs (init_app rnd w0 h0)))
            = phi (run_app evs (init_app rnd w0 h0))
          \<and> theta (animate_app (run_app evs (init_app rnd w0 h0)))
            = theta (run_app evs (init_app rnd w0 h0)))"
proof -
  have 1: "moveX s = 0 \<and> moveY s = 0
      \<longrightarrow> camera (animate_script (animate_script s)) = camera (animate_script s)
          \<and> yaw (animate_script (animate_script s)) = yaw (animate_script s)
          \<and> pitch (animate_script (animate_script s)) = pitch (animate_script s)"
    using zero_frames_script [of s 1] by simp
  have 2: "moveX s = 0 \<and> moveY s = 0
      \<longrightarrow> camera ((animate_script ^^ Suc n) s) = camera (animate_script s)
          \<and> yaw ((animate_script ^^ Suc n) s) = yaw (animate_script s)
          \<and> pitch ((animate_script ^^ Suc n) s) = pitch (animate_script s)"
    using zero_frames_script [of s n] by blast
  have 3: "joystickVector a = (0, 0)
      \<longrightarrow> camera (animate_app (animate_app a)) = camera (animate_app a)
          \<and> phi (animate_app (animate_app a)) = phi (animate_app a)
          \<and> theta (animate_app (animate_app a)) = theta (animate_app a)"
    using zero_frames_app [of a 1] by simp
  have 4: "joystickVector a = (0, 0)
      \<longrightarrow> camera ((animate_app ^^ Suc n) a) = camera (animate_app a)
          \<and> phi ((animate_app ^^ Suc n) a) = phi (animate_app a)
          \<and> theta ((animate_app ^^ Suc n) a) = theta (animate_app a)"
    using zero_frames_app [of a n] by blast
  show ?thesis
    using 1 2 3 4 settled_script_zero_input [OF reachable_script_settled, of evs w0 h0]
      settled_app_zero_input [OF reachable_app_settled, of evs rnd w0 h0]
    by blast
qed

theorem zero_input_holds_camera_witness:
  "moveX (startup_script 800 600) = 0
   \<and> moveY (startup_script 800 600) = 0
   \<and> joystickVector (startup_app (\<lambda>i. 0) 800 600) = (0, 0)
   \<and> moveX (run_script [JoystickMove push_up, AnimationFrame, JoystickEnd] (init_script 800 600)) = 0
   \<and> moveY (run_script [JoystickMove push_up, AnimationFrame, JoystickEnd] (init_script 800 600)) = 0
   \<and> joystickVector (run_app [JoystickMove push_up, AnimationFrame, JoystickEnd]
        (init_app (\<lambda>i. 0) 800 600)) = (0, 0)
   \<and> cam_position (camera (animate_script (animate_script (startup_script 800 600))))
       = cam_position (camera (animate_script (startup_script 800 600)))
   \<and> cam_position (camera ((animate_script ^^ Suc 10000) (startup_script 800 600)))
       = cam_position (camera (animate_script (startup_script 800 600)))
   \<and> cam_position (camera (animate_app (animate_app (startup_app (\<lambda>i. 0) 800 600))))
       = cam_position (camera (animate_app (startup_app (\<lambda>i. 0) 800 600)))
   \<and> cam_position (camera ((animate_app ^^ Suc 10000) (startup_app (\<lambda>i. 0) 800 600)))
       = cam_position (camera (animate_app (startup_app (\<lambda>i. 0) 800 600)))
   \<and> cam_position (camera (animate_script
        (run_script [JoystickMove push_up, AnimationFrame, JoystickEnd] (init_script 800 600))))
       = cam_position (camera
        (run_script [JoystickMove push_up, AnimationFrame, JoystickEnd] (init_script 800 600)))
   \<and> cam_position (camera (animate_app
        (run_app [JoystickMove push_up, AnimationFrame, JoystickEnd] (init_app (\<lambda>i. 0) 800 600))))
       = cam_position (camera
        (run_app [JoystickMove push_up, AnimationFrame, JoystickEnd] (init_app (\<lambda>i. 0) 800 600)))"
proof -
  let ?evs = "[JoystickMove push_up, AnimationFrame, JoystickEnd]"
  have 0: "moveX (startup_script 800 600) = 0 \<and> moveY (startup_script 800 600) = 0"
    "joystickVector (startup_app (\<lambda>i. 0) 800 600) = (0, 0)"
    by (simp_all add: startup_script_def startup_app_def)
  have 1: "moveX (run_script ?evs (init_script 800 600)) = 0
      \<and> moveY (run_script ?evs (init_script 800 600)) = 0"
    by (simp add: run_script_def on_end_script_def)
  have 2: "joystickVector (run_app ?evs (init_app (\<lambda>i. 0) 800 600)) = (0, 0)"
    by (simp add: run_app_def on_end_app_def)
  from zero_input_holds_camera
    [of "startup_script 800 600" 10000 "startup_app (\<lambda>i. 0) 800 600" ?evs 800 600 "\<lambda>i. 0"]
    0 1 2
  show ?thesis by metis
qed

text \<open>
  Claim C5. In a state the program has reached, with the input vector \<open>{x = 1, y = 0}\<close>, one
  frame at sensitivity 0.05 lowers the azimuth (yaw, phi) by exactly 0.05, leaves the polar
  angle (pitch, theta) unchanged, and puts the camera at the fixed radius from the origin,
  where it was before.
\<close>

theorem push_right_one_frame:
  "(moveX (run_script evs (init_script w0 h0)) = 1 \<and> moveY (run_script evs (init_script w0 h0)) = 0
      \<longrightarrow> yaw (animate_script (run_script evs (init_script w0 h0)))
            = yaw (run_script evs (init_script w0 h0)) - 0.05
          \<and> pitch (animate_script (run_script evs (init_script w0 h0)))
            = pitch (run_script evs (init_script w0 h0))
          \<and> vec_length (cam_position (camera (animate_script (run_script evs (init_script w0 h0)))))
            = camRadius
          \<and> vec_length (cam_position (camera (run_script evs (init_script w0 h0)))) = camRadius)
   \<and> (joystickVector (run_app evs (init_app rnd w0 h0)) = (1, 0)
      \<longrightarrow> phi (animate_app (run_app evs (init_app rnd w0 h0)))
            = phi (run_app evs (init_app rnd w0 h0)) - 0.05
          \<and> theta (animate_app (run_app evs (init_app rnd w0 h0)))
            = theta (run_app evs (init_app rnd w0 h0))
          \<and> vec_length (cam_position (camera (animate_app (run_app evs (init_app rnd w0 h0)))))
            = cameraDistance
          \<and> vec_length (cam_position (camera (run_app evs (init_app rnd w0 h0)))) = cameraDistance)"
  using settled_script_push_right [OF reachable_script_settled, of evs w0 h0]
    settled_app_push_right [OF reachable_app_settled, of evs rnd w0 h0]
    settled_script_length [OF animate_script_settled, of "run_script evs (init_script w0 h0)"]
    settled_script_length [OF reachable_script_settled, of evs w0 h0]
    settled_app_length [OF animate_app_settled, of "run_app evs (init_app rnd w0 h0)"]
    settled_app_length [OF reachable_app_settled, of evs rnd w0 h0]
  by blast

theorem push_right_one_frame_witness:
  "moveX (run_script [JoystickMove push_right] (init_script 800 600)) = 1
   \<and> moveY (run_script [JoystickMove push_right] (init_script 800 600)) = 0
   \<and> joystickVector (run_app [JoystickMove push_right] (init_app (\<lambda>i. 0) 800 600)) = (1, 0)
   \<and> yaw (animate_script (run_script [JoystickMove push_right] (init_script 800 600)))
       = yaw (run_script [JoystickMove push_right] (init_script 800 600)) - 0.05
   \<and> phi (animate_app (run_app [JoystickMove push_right] (init_app (\<lambda>i. 0) 800 600)))
       = phi (run_app [JoystickMove push_right] (init_app (\<lambda>i. 0) 800 600)) - 0.05"
proof -
  let ?evs = "[JoystickMove push_right]"
  have 1: "moveX (run_script ?evs (init_script 800 600)) = 1"
    "moveY (run_script ?evs (init_script 800 600)) = 0"
    by (simp_all add: run_script_def on_move_script_def push_right_def Let_def)
  have 2: "joystickVector (run_app ?evs (init_app (\<lambda>i. 0) 800 600)) = (1, 0)"
    by (simp add: run_app_def on_move_app_def push_right_def)
  show ?thesis
    using 1 2 push_right_one_frame [of ?evs 800 600 "\<lambda>i. 0"] by simp
qed

text \<open>
  Claim C9. After every execution of the per-frame camera update, from whatever state and
  input, the camera's distance from the origin is the fixed radius: \<open>camRadius = 30\<close> in
  \<^verbatim>\<open>script.js\<close>, \<open>cameraDistance = 40\<close> in \<^verbatim>\<open>app.js\<close>; so it is in every state the program reaches.
  The position \<open>(0, 5, 30)\<close> that \<^verbatim>\<open>script.js\<close> sets before its first frame is not at that
  distance.
\<close>

theorem camera_stays_on_sphere:
  "vec_length (cam_position (camera (animate_script s))) = 30
   \<and> vec_length (cam_position (camera (updateCamera a))) = 40
   \<and> vec_length (cam_position (camera (animate_app a))) = 40
   \<and> vec_length (cam_position (camera (run_script evs (init_script w0 h0)))) = 30
   \<and> vec_length (cam_position (camera (run_app evs (init_app rnd w0 h0)))) = 40
   \<and> camRadius = 30
   \<and> cameraDistance = 40
   \<and> cam_position (camera (startup_script w0 h0)) = (0, 5, 30)
   \<and> vec_length (cam_position (camera (startup_script w0 h0))) \<noteq> 30"
proof -
  have "sqrt 925 \<noteq> sqrt (30\<^sup>2)"
    by (simp only: real_sqrt_eq_iff) simp
  then have "sqrt 925 \<noteq> 30"
    by simp
  then have far: "vec_length (cam_position (camera (startup_script w0 h0))) \<noteq> 30"
    by (simp add: startup_script_def vec_length_def camRadius_def)
  show ?thesis
    using settled_script_length [OF animate_script_settled, of s]
      settled_app_length [OF updateCamera_settled, of a]
      settled_app_length [OF animate_app_settled, of a]
      settled_script_length [OF reachable_script_settled, of evs w0 h0]
      settled_app_length [OF reachable_app_settled, of evs rnd w0 h0]
      far
    by (simp add: camRadius_def cameraDistance_def startup_script_def)
qed


section \<open>The joystick and the resize claims\<close>

lemma on_move_script_range:
  assumes "0 \<le> data_distance d"
  shows "\<bar>moveX (on_move_script d s)\<bar> \<le> 1 \<and> \<bar>moveY (on_move_script d s)\<bar> \<le> 1"
proof -
  define m where "m = min (data_distance d / 50) 1"
  have m: "0 \<le> m" "m \<le> 1"
    using assms by (simp_all add: m_def)
  have "\<bar>cos (data_angle_radian d) * m\<bar> \<le> 1 * 1"
    unfolding abs_mult using m by (intro mult_mono) simp_all
  moreover have "\<bar>sin (data_angle_radian d) * m\<bar> \<le> 1 * 1"
    unfolding abs_mult using m by (intro mult_mono) simp_all
  ultimately show ?thesis
    by (simp add: on_move_script_def Let_def m_def)
qed

lemma step_script_range:
  "joystick_normalized e \<Longrightarrow> \<bar>moveX s\<bar> \<le> 1 \<and> \<bar>moveY s\<bar> \<le> 1 \<Longrightarrow>
   \<bar>moveX (step_script e s)\<bar> \<le> 1 \<and> \<bar>moveY (step_script e s)\<bar> \<le> 1"
  by (cases e)
     (simp_all add: on_move_script_range,
      simp_all add: on_end_script_def animate_script_def resize_def Let_def)

lemma run_script_range:
  "list_all joystick_normalized evs \<Longrightarrow> \<bar>moveX s\<bar> \<le> 1 \<and> \<bar>moveY s\<bar> \<le> 1 \<Longrightarrow>
   \<bar>moveX (run_script evs s)\<bar> \<le> 1 \<and> \<bar>moveY (run_script evs s)\<bar> \<le> 1"
proof (induction evs arbitrary: s)
  case Nil
  then show ?case by (simp add: run_script_def)
next
  case (Cons e evs)
  from Cons.prems have "\<bar>moveX (step_script e s)\<bar> \<le> 1 \<and> \<bar>moveY (step_script e s)\<bar> \<le> 1"
    by (intro step_script_range) simp_all
  with Cons.IH [of "step_script e s"] Cons.prems(1) show ?case
    by (simp add: run_script_def)
qed

lemma step_app_range:
  "joystick_normalized e \<Longrightarrow>
   \<bar>fst (joystickVector s)\<bar> \<le> 1 \<and> \<bar>snd (joystickVector s)\<bar> \<le> 1 \<Longrightarrow>
   \<bar>fst (joystickVector (step_app e s))\<bar> \<le> 1 \<and> \<bar>snd (joystickVector (step_app e s))\<bar> \<le> 1"
  by (cases e)
     (simp_all add: on_move_app_def on_end_app_def animate_app_joystickVector resize_def Let_def)

lemma run_app_range:
  "list_all joystick_normalized evs \<Longrightarrow>
   \<bar>fst (joystickVector s)\<bar> \<le> 1 \<and> \<bar>snd (joystickVector s)\<bar> \<le> 1 \<Longrightarrow>
   \<bar>fst (joystickVector (run_app evs s))\<bar> \<le> 1 \<and> \<bar>snd (joystickVector (run_app evs s))\<bar> \<le> 1"
proof (induction evs arbitrary: s)
  case Nil
  then show ?case by (simp add: run_app_def)
next
  case (Cons e evs)
  from Cons.prems
  have "\<bar>fst (joystickVector (step_app e s))\<bar> \<le> 1 \<and> \<bar>snd (joystickVector (step_app e s))\<bar> \<le> 1"
    by (intro step_app_range) simp_all
  with Cons.IH [of "step_app e s"] Cons.prems(1) show ?case
    by (simp add: run_app_def)
qed

lemma init_script_input: "moveX (init_script w0 h0) = 0 \<and> moveY (init_script w0 h0) = 0"
  by (simp add: init_script_def animate_script_def startup_script_def Let_def)

lemma init_app_input: "joystickVector (init_app rnd w0 h0) = (0, 0)"
  by (simp add: init_app_def animate_app_joystickVector startup_app_def)

lemma step_script_keeps_input:
  "\<not> is_move e \<Longrightarrow> moveX (step_script e s) = 0 \<and> moveY (step_script e s) = 0
     \<longleftrightarrow> e = JoystickEnd \<or> (moveX s = 0 \<and> moveY s = 0)"
  by (cases e) (simp_all add: on_end_script_def animate_script_def resize_def Let_def)

lemma run_script_keeps_zero:
  "\<not> list_ex is_move evs \<Longrightarrow> moveX s = 0 \<and> moveY s = 0 \<Longrightarrow>
   moveX (run_script evs s) = 0 \<and> moveY (run_script evs s) = 0"
proof (induction evs arbitrary: s)
  case Nil
  then show ?case by (simp add: run_script_def)
next
  case (Cons e evs)
  from Cons.prems have "moveX (step_script e s) = 0 \<and> moveY (step_script e s) = 0"
    by (simp add: step_script_keeps_input)
  with Cons.IH [of "step_script e s"] Cons.prems(1) show ?case
    by (simp add: run_script_def)
qed

lemma run_app_keeps_zero:
  "\<not> list_ex is_move evs \<Longrightarrow> joystickVector s = (0, 0) \<Longrightarrow> joystickVector (run_app evs s) = (0, 0)"
proof (induction evs arbitrary: s)
  case Nil
  then show ?case by (simp add: run_app_def)
next
  case (Cons e evs)
  from Cons.prems have "joystickVector (step_app e s) = (0, 0)"
    by (cases e) (simp_all add: on_end_app_def animate_app_joystickVector resize_def Let_def)
  with Cons.IH [of "step_app e s"] Cons.prems(1) show ?case
    by (simp add: run_app_def)
qed

text \<open>
  Claim C7. Starting from the program's initial state, after any sequence of events in which
  every joystick move carries what the joystick library delivers (a distance that is not
  negative, a vector normalized to \<open>[-1, 1]\<close>), both components of the stored input vector lie
  in \<open>[-1, 1]\<close>. An end event sets both components to exactly 0, from any state, and they stay
  0 through any later events up to the next move event.
\<close>

theorem input_vector_in_range:
  "(list_all joystick_normalized evs \<longrightarrow>
      \<bar>moveX (run_script evs (init_script w0 h0))\<bar> \<le> 1
      \<and> \<bar>moveY (run_script evs (init_script w0 h0))\<bar> \<le> 1
      \<and> \<bar>fst (joystickVector (run_app evs (init_app rnd w0 h0)))\<bar> \<le> 1
      \<and> \<bar>snd (joystickVector (run_app evs (init_app rnd w0 h0)))\<bar> \<le> 1)
   \<and> moveX (step_script JoystickEnd s) = 0
   \<and> moveY (step_script JoystickEnd s) = 0
   \<and> joystickVector (step_app JoystickEnd a) = (0, 0)
   \<and> (\<not> list_ex is_move later \<longrightarrow>
        moveX (run_script (JoystickEnd # later) s) = 0
        \<and> moveY (run_script (JoystickEnd # later) s) = 0
        \<and> joystickVector (run_app (JoystickEnd # later) a) = (0, 0))"
proof -
  have 1: "list_all joystick_normalized evs \<longrightarrow>
      \<bar>moveX (run_script evs (init_script w0 h0))\<bar> \<le> 1
      \<and> \<bar>moveY (run_script evs (init_script w0 h0))\<bar> \<le> 1
      \<and> \<bar>fst (joystickVector (run_app evs (init_app rnd w0 h0)))\<bar> \<le> 1
      \<and> \<bar>snd (joystickVector (run_app evs (init_app rnd w0 h0)))\<bar> \<le> 1"
    using run_script_range [of evs "init_script w0 h0"] run_app_range [of evs "init_app rnd w0 h0"]
    by (simp add: init_script_input init_app_input)
  have 2: "moveX (step_script JoystickEnd s) = 0 \<and> moveY (step_script JoystickEnd s) = 0
      \<and> joystickVector (step_app JoystickEnd a) = (0, 0)"
    by (simp add: on_end_script_def on_end_app_def)
  have 3: "\<not> list_ex is_move later \<longrightarrow>
        moveX (run_script (JoystickEnd # later) s) = 0
        \<and> moveY (run_script (JoystickEnd # later) s) = 0
        \<and> joystickVector (run_app (JoystickEnd # later) a) = (0, 0)"
    using run_script_keeps_zero [of later "on_end_script s"] run_app_keeps_zero [of later "on_end_app a"]
    by (simp add: run_script_def run_app_def on_end_script_def on_end_app_def)
  from 1 2 3 show ?thesis by blast
qed

theorem input_vector_in_range_witness:
  "list_all joystick_normalized [JoystickMove push_right, AnimationFrame, JoystickMove push_up]
   \<and> \<not> list_ex is_move [AnimationFrame, Resize 1600 900]
   \<and> \<bar>moveX (run_script [JoystickMove push_right, AnimationFrame, JoystickMove push_up]
          (init_script 800 600))\<bar> \<le> 1
   \<and> \<bar>fst (joystickVector (run_app [JoystickMove push_right, AnimationFrame, JoystickMove push_up]
          (init_app (\<lambda>i. 0) 800 600)))\<bar> \<le> 1
   \<and> moveX (run_script [JoystickEnd, AnimationFrame, Resize 1600 900] (init_script 800 600)) = 0
   \<and> joystickVector (run_app [JoystickEnd, AnimationFrame, Resize 1600 900]
          (init_app (\<lambda>i. 0) 800 600)) = (0, 0)"
proof -
  have 1: "list_all joystick_normalized [JoystickMove push_right, AnimationFrame, JoystickMove push_up]"
    by (simp add: push_right_def push_up_def)
  have 2: "\<not> list_ex is_move [AnimationFrame, Resize 1600 900]"
    by simp
  show ?thesis
    using 1 2
      input_vector_in_range [of "[JoystickMove push_right, AnimationFrame, JoystickMove push_up]"
        800 600 "\<lambda>i. 0" "init_script 800 600" "init_app (\<lambda>i. 0) 800 600"
        "[AnimationFrame, Resize 1600 900]"]
    by blast
qed

text \<open>
  Claim C8. A resize to 1600 by 900, whatever the size before (800 by 600 or any other), sets
  the camera's aspect to \<open>1600 / 900\<close>, brings the projection matrix up to date with it and
  sets the renderer's output size to \<open>(1600, 900)\<close>, in each of the three scripts; the state is
  otherwise the same: orbit angles and positions of the bodies, camera position and angles,
  input vector.
\<close>

theorem resize_changes_only_the_view:
  "step_script (Resize 1600 900) s
     = s\<lparr>camera := (camera s)\<lparr>cam_aspect := 1600 / 900, cam_projection_aspect := 1600 / 900\<rparr>,
         renderer_size := (1600, 900)\<rparr>
   \<and> step_app (Resize 1600 900) a
     = a\<lparr>camera := (camera a)\<lparr>cam_aspect := 1600 / 900, cam_projection_aspect := 1600 / 900\<rparr>,
         renderer_size := (1600, 900)\<rparr>
   \<and> resize 1600 900 (ctx :: main_context)
     = ctx\<lparr>camera := (camera ctx)\<lparr>cam_aspect := 1600 / 900, cam_projection_aspect := 1600 / 900\<rparr>,
           renderer_size := (1600, 900)\<rparr>
   \<and> cam_aspect (camera (step_script (Resize 1600 900) (step_script (Resize 800 600) s))) = 1600 / 900
   \<and> renderer_size (step_script (Resize 1600 900) (step_script (Resize 800 600) s)) = (1600, 900)
   \<and> cam_position (camera (step_script (Resize 1600 900) s)) = cam_position (camera s)
   \<and> planetPivots (step_script (Resize 1600 900) s) = planetPivots s
   \<and> yaw (step_script (Resize 1600 900) s) = yaw s
   \<and> pitch (step_script (Resize 1600 900) s) = pitch s
   \<and> moveX (step_script (Resize 1600 900) s) = moveX s
   \<and> moveY (step_script (Resize 1600 900) s) = moveY s
   \<and> cam_aspect (camera (step_app (Resize 1600 900) (step_app (Resize 800 600) a))) = 1600 / 900
   \<and> renderer_size (step_app (Resize 1600 900) (step_app (Resize 800 600) a)) = (1600, 900)
   \<and> cam_position (camera (step_app (Resize 1600 900) a)) = cam_position (camera a)
   \<and> planets (step_app (Resize 1600 900) a) = planets a
   \<and> phi (step_app (Resize 1600 900) a) = phi a
   \<and> theta (step_app (Resize 1600 900) a) = theta a
   \<and> joystickVector (step_app (Resize 1600 900) a) = joystickVector a
   \<and> cam_aspect (camera (resize 1600 900 (resize 800 600 ctx))) = 1600 / 900
   \<and> renderer_size (resize 1600 900 (resize 800 600 ctx)) = (1600, 900)
   \<and> cam_position (camera (resize 1600 900 ctx)) = cam_position (camera ctx)
   \<and> objects (resize 1600 900 ctx) = objects ctx
   \<and> orbitObjects (resize 1600 900 ctx) = orbitObjects ctx
   \<and> previousTime (resize 1600 900 ctx) = previousTime ctx"
  by (simp add: resize_def updateProjectionMatrix_def Let_def)


section \<open>The orbit claims\<close>

subsection \<open>Orbit angles in script.js and app.js\<close>

lemma planetPivots_animate_script:
  "planetPivots (animate_script s)
     = map (\<lambda>obj. obj\<lparr>pivot_rotation_y := pivot_rotation_y obj + pivot_speed obj\<rparr>) (planetPivots s)"
  by (simp add: animate_script_def Let_def)

lemma planetPivots_other_script:
  "e \<noteq> AnimationFrame \<Longrightarrow> planetPivots (step_script e s) = planetPivots s"
  by (cases e) (simp_all add: on_move_script_def on_end_script_def resize_def Let_def)

lemma planetPivots_run_script:
  "planetPivots s = map (\<lambda>d. \<lparr>pivot_rotation_y = real k * speed d, mesh_position_x = radius d,
                                pivot_speed = speed d\<rparr>) tbl \<Longrightarrow>
   planetPivots (run_script evs s)
     = map (\<lambda>d. \<lparr>pivot_rotation_y = real (k + count_list evs AnimationFrame) * speed d,
                  mesh_position_x = radius d, pivot_speed = speed d\<rparr>) tbl"
proof (induction evs arbitrary: s k)
  case Nil
  then show ?case by (simp add: run_script_def)
next
  case (Cons e evs)
  show ?case
  proof (cases "e = AnimationFrame")
    case True
    have "planetPivots (step_script e s)
            = map (\<lambda>d. \<lparr>pivot_rotation_y = real (Suc k) * speed d, mesh_position_x = radius d,
                         pivot_speed = speed d\<rparr>) tbl"
      by (simp add: planetPivots_animate_script True Cons.prems algebra_simps)
    from Cons.IH [OF this] True show ?thesis
      by (simp add: run_script_def)
  next
    case False
    have "planetPivots (step_script e s)
            = map (\<lambda>d. \<lparr>pivot_rotation_y = real k * speed d, mesh_position_x = radius d,
                         pivot_speed = speed d\<rparr>) tbl"
      by (simp add: planetPivots_other_script False Cons.prems)
    from Cons.IH [OF this] False show ?thesis
      by (simp add: run_script_def)
  qed
qed

lemma planetPivots_reachable_script:
  "planetPivots (run_script evs (init_script w0 h0))
     = map (\<lambda>d. \<lparr>pivot_rotation_y = real (Suc (count_list evs AnimationFrame)) * speed d,
                  mesh_position_x = radius d, pivot_speed = speed d\<rparr>) planetsData"
proof -
  have "planetPivots (init_script w0 h0)
          = map (\<lambda>d. \<lparr>pivot_rotation_y = real 1 * speed d, mesh_position_x = radius d,
                       pivot_speed = speed d\<rparr>) planetsData"
    by (simp add: init_script_def animate_script_def startup_script_def make_pivot_def Let_def)
  from planetPivots_run_script [OF this, of evs] show ?thesis by simp
qed

lemma userData_updatePlanet:
  "userData (updatePlanet p) = (userData p)\<lparr>angle := angle (userData p) + ud_speed (userData p)\<rparr>"
  by (simp add: updatePlanet_def Let_def)

lemma userData_animate_app:
  "map userData (planets (animate_app s))
     = map (\<lambda>ud. ud\<lparr>angle := angle ud + ud_speed ud\<rparr>) (map userData (planets s))"
  by (simp add: animate_app_def updateCamera_def updatePlanets_def Let_def userData_updatePlanet
      comp_def)

lemma planets_other_app:
  "e \<noteq> AnimationFrame \<Longrightarrow> planets (step_app e s) = planets s"
  by (cases e) (simp_all add: on_move_app_def on_end_app_def resize_def Let_def)

lemma userData_run_app:
  "map userData (planets s)
     = map (\<lambda>x. \<lparr>orbitRadius = r x, angle = a0 x + real k * v x, ud_speed = v x\<rparr>) xs \<Longrightarrow>
   map userData (planets (run_app evs s))
     = map (\<lambda>x. \<lparr>orbitRadius = r x, angle = a0 x + real (k + count_list evs AnimationFrame) * v x,
                  ud_speed = v x\<rparr>) xs"
proof (induction evs arbitrary: s k)
  case Nil
  then show ?case by (simp add: run_app_def)
next
  case (Cons e evs)
  show ?case
  proof (cases "e = AnimationFrame")
    case True
    have "map userData (planets (step_app e s))
            = map (\<lambda>x. \<lparr>orbitRadius = r x, angle = a0 x + real (Suc k) * v x, ud_speed = v x\<rparr>) xs"
      by (simp add: userData_animate_app True Cons.prems algebra_simps)
    from Cons.IH [OF this] True show ?thesis
      by (simp add: run_app_def)
  next
    case False
    have "map userData (planets (step_app e s))
            = map (\<lambda>x. \<lparr>orbitRadius = r x, angle = a0 x + real k * v x, ud_speed = v x\<rparr>) xs"
      by (simp add: planets_other_app False Cons.prems)
    from Cons.IH [OF this] False show ?thesis
      by (simp add: run_app_def)
  qed
qed

lemma userData_reachable_app:
  "map userData (planets (run_app evs (init_app rnd w0 h0)))
     = map (\<lambda>x. \<lparr>orbitRadius = radius (snd x),
                  angle = rnd (fst x) * pi * 2 + real (Suc (count_list evs AnimationFrame)) * speed (snd x),
                  ud_speed = speed (snd x)\<rparr>) (enumerate 0 orbitData)"
proof -
  have "map userData (planets (init_app rnd w0 h0))
          = map (\<lambda>x. \<lparr>orbitRadius = radius (snd x),
                       angle = rnd (fst x) * pi * 2 + real 1 * speed (snd x),
                       ud_speed = speed (snd x)\<rparr>) (enumerate 0 orbitData)"
    by (simp add: init_app_def animate_app_def updateCamera_def updatePlanets_def startup_app_def
        createPlanet_def userData_updatePlanet Let_def comp_def case_prod_beta)
  from userData_run_app [OF this, of evs] show ?thesis by simp
qed

lemma speeds_positive:
  "\<forall>d \<in> set planetsData. 0 < speed d"
  "\<forall>d \<in> set orbitData. 0 < speed d"
  by (simp_all add: planetsData_def orbitData_def)

lemma more_frames_greater: "k < k' \<Longrightarrow> 0 < v \<Longrightarrow> a + real k * v < a + real k' * (v::real)"
  by simp

text \<open>
  Claim C10. Every orbit speed of the three configuration tables is strictly positive. In
  \<^verbatim>\<open>script.js\<close> and \<^verbatim>\<open>app.js\<close> the orbit angle of a planet is its start angle plus its speed
  times the number of frames run so far; hence, between any reachable state and any later
  state with at least one more frame, every planet's orbit angle has strictly increased.
\<close>

theorem orbit_angles_strictly_increase:
  "list_all (\<lambda>d. 0 < speed d) planetsData
   \<and> list_all (\<lambda>d. 0 < speed d) orbitData
   \<and> list_all (\<lambda>c. 0 < orbitSpeed c \<and> list_all (\<lambda>m. 0 < orbitSpeed m) (satellites c)) PLANETS
   \<and> map pivot_rotation_y (planetPivots (run_script evs (init_script w0 h0)))
       = map (\<lambda>d. real (Suc (count_list evs AnimationFrame)) * speed d) planetsData
   \<and> map (\<lambda>p. angle (userData p)) (planets (run_app evs (init_app rnd w0 h0)))
       = map (\<lambda>x. rnd (fst x) * pi * 2 + real (Suc (count_list evs AnimationFrame)) * speed (snd x))
           (enumerate 0 orbitData)
   \<and> list_all2 (\<lambda>p q. pivot_rotation_y p < pivot_rotation_y q)
       (planetPivots (run_script evs (init_script w0 h0)))
       (planetPivots (run_script (evs @ evs1 @ AnimationFrame # evs2) (init_script w0 h0)))
   \<and> list_all2 (\<lambda>p q. angle (userData p) < angle (userData q))
       (planets (run_app evs (init_app rnd w0 h0)))
       (planets (run_app (evs @ evs1 @ AnimationFrame # evs2) (init_app rnd w0 h0)))"
proof -
  let ?later = "evs @ evs1 @ AnimationFrame # evs2"
  have c: "count_list evs AnimationFrame < count_list ?later AnimationFrame"
    by simp
  have 1: "list_all (\<lambda>d. 0 < speed d) planetsData" "list_all (\<lambda>d. 0 < speed d) orbitData"
    by (simp_all add: planetsData_def orbitData_def)
  have 2: "list_all (\<lambda>c. 0 < orbitSpeed c \<and> list_all (\<lambda>m. 0 < orbitSpeed m) (satellites c)) PLANETS"
    by (simp add: PLANETS_def)
  have 3: "map pivot_rotation_y (planetPivots (run_script evs (init_script w0 h0)))
       = map (\<lambda>d. real (Suc (count_list evs AnimationFrame)) * speed d) planetsData"
    by (simp add: planetPivots_reachable_script comp_def)
  have "map (\<lambda>p. angle (userData p)) (planets (run_app evs (init_app rnd w0 h0)))
          = map angle (map userData (planets (run_app evs (init_app rnd w0 h0))))"
    by (simp add: comp_def)
  then have 4: "map (\<lambda>p. angle (userData p)) (planets (run_app evs (init_app rnd w0 h0)))
       = map (\<lambda>x. rnd (fst x) * pi * 2 + real (Suc (count_list evs AnimationFrame)) * speed (snd x))
           (enumerate 0 orbitData)"
    by (simp only: userData_reachable_app) (simp add: comp_def)
  have 5: "list_all2 (\<lambda>p q. pivot_rotation_y p < pivot_rotation_y q)
       (planetPivots (run_script evs (init_script w0 h0)))
       (planetPivots (run_script ?later (init_script w0 h0)))"
    unfolding planetPivots_reachable_script list_all2_map1 list_all2_map2 list_all2_same
    using speeds_positive(1) c by simp
  have "list_all2 (\<lambda>u w. angle u < angle w)
       (map userData (planets (run_app evs (init_app rnd w0 h0))))
       (map userData (planets (run_app ?later (init_app rnd w0 h0))))"
    unfolding userData_reachable_app list_all2_map1 list_all2_map2 list_all2_same
    using speeds_positive(2) c by (auto simp: in_set_enumerate_eq)
  then have 6: "list_all2 (\<lambda>p q. angle (userData p) < angle (userData q))
       (planets (run_app evs (init_app rnd w0 h0)))
       (planets (run_app ?later (init_app rnd w0 h0)))"
    by (simp add: list_all2_map1 list_all2_map2)
  from 1 2 3 4 5 6 show ?thesis by blast
qed


subsection \<open>The store of main.js\<close>

lemma build_objects:
  "objects (buildSolarSystem w0 h0) =
     [\<lparr>parent = None, position_x = 0, rotation_y = 0\<rparr>,
      \<lparr>parent = Some 0, position_x = 6, rotation_y = 0\<rparr>,
      \<lparr>parent = None, position_x = 0, rotation_y = 0\<rparr>,
      \<lparr>parent = Some 2, position_x = 9, rotation_y = 0\<rparr>,
      \<lparr>parent = None, position_x = 0, rotation_y = 0\<rparr>,
      \<lparr>parent = Some 4, position_x = 12, rotation_y = 0\<rparr>,
      \<lparr>parent = Some 5, position_x = 0, rotation_y = 0\<rparr>,
      \<lparr>parent = Some 6, position_x = 2.2, rotation_y = 0\<rparr>,
      \<lparr>parent = None, position_x = 0, rotation_y = 0\<rparr>,
      \<lparr>parent = Some 8, position_x = 16, rotation_y = 0\<rparr>,
      \<lparr>parent = None, position_x = 0, rotation_y = 0\<rparr>,
      \<lparr>parent = Some 10, position_x = 24, rotation_y = 0\<rparr>,
      \<lparr>parent = None, position_x = 0, rotation_y = 0\<rparr>,
      \<lparr>parent = Some 12, position_x = 32, rotation_y = 0\<rparr>,
      \<lparr>parent = None, position_x = 0, rotation_y = 0\<rparr>,
      \<lparr>parent = Some 14, position_x = 38, rotation_y = 0\<rparr>,
      \<lparr>parent = None, position_x = 0, rotation_y = 0\<rparr>,
      \<lparr>parent = Some 16, position_x = 45, rotation_y = 0\<rparr>]"
  by (simp add: buildSolarSystem_def PLANETS_def build_planet_def build_satellite_def Let_def)

lemma build_orbitObjects:
  "orbitObjects (buildSolarSystem w0 h0) =
     [\<lparr>pivot = 0, mesh = 1, oo_orbitSpeed = 0.02, oo_rotationSpeed = 0.004\<rparr>,
      \<lparr>pivot = 2, mesh = 3, oo_orbitSpeed = 0.015, oo_rotationSpeed = 0.0025\<rparr>,
      \<lparr>pivot = 4, mesh = 5, oo_orbitSpeed = 0.012, oo_rotationSpeed = 0.02\<rparr>,
      \<lparr>pivot = 6, mesh = 7, oo_orbitSpeed = 0.04, oo_rotationSpeed = 0.01\<rparr>,
      \<lparr>pivot = 8, mesh = 9, oo_orbitSpeed = 0.01, oo_rotationSpeed = 0.018\<rparr>,
      \<lparr>pivot = 10, mesh = 11, oo_orbitSpeed = 0.005, oo_rotationSpeed = 0.025\<rparr>,
      \<lparr>pivot = 12, mesh = 13, oo_orbitSpeed = 0.004, oo_rotationSpeed = 0.022\<rparr>,
      \<lparr>pivot = 14, mesh = 15, oo_orbitSpeed = 0.0035, oo_rotationSpeed = 0.018\<rparr>,
      \<lparr>pivot = 16, mesh = 17, oo_orbitSpeed = 0.003, oo_rotationSpeed = 0.016\<rparr>]"
  by (simp add: buildSolarSystem_def PLANETS_def build_planet_def build_satellite_def Let_def)

lemma build_refs_distinct: "distinct (orbit_refs (orbitObjects (buildSolarSystem w0 h0)))"
  by (simp add: build_orbitObjects orbit_refs_def)

lemma build_refs_in_store:
  "obj \<in> set (orbitObjects (buildSolarSystem w0 h0)) \<Longrightarrow>
   pivot obj < length (objects (buildSolarSystem w0 h0)) \<and> rotation_y (objects (buildSolarSystem w0 h0) ! pivot obj) = 0"
  by (auto simp add: build_orbitObjects build_objects)

lemma rotate_y_nth:
  "rotate_y i da objs ! j =
     (if i = j \<and> j < length objs then (objs ! j)\<lparr>rotation_y := rotation_y (objs ! j) + da\<rparr>
      else objs ! j)"
  by (cases "i < length objs") (auto simp: rotate_y_def nth_list_update list_update_beyond)

lemma length_rotate_y: "length (rotate_y i da objs) = length objs"
  by (simp add: rotate_y_def)

lemma set_rotation_y_nth:
  "set_rotation_y i a objs ! j =
     (if i = j \<and> j < length objs then (objs ! j)\<lparr>rotation_y := a\<rparr> else objs ! j)"
  by (cases "i < length objs") (auto simp: set_rotation_y_def nth_list_update list_update_beyond)

lemma length_set_rotation_y: "length (set_rotation_y i a objs) = length objs"
  by (simp add: set_rotation_y_def)

subsection \<open>Frames of main.js\<close>

lemma update_orbit_object_nth_other:
  "j \<noteq> pivot obj \<Longrightarrow> j \<noteq> mesh obj \<Longrightarrow> update_orbit_object ds obj objs ! j = objs ! j"
  by (simp add: update_orbit_object_def rotate_y_nth)

lemma length_update_orbit_object: "length (update_orbit_object ds obj objs) = length objs"
  by (simp add: update_orbit_object_def length_rotate_y)

lemma update_orbit_object_pivot:
  "pivot obj \<noteq> mesh obj \<Longrightarrow> pivot obj < length objs \<Longrightarrow>
   rotation_y (update_orbit_object ds obj objs ! pivot obj)
     = rotation_y (objs ! pivot obj) + oo_orbitSpeed obj * ds * 60"
  by (simp add: update_orbit_object_def rotate_y_nth length_rotate_y)

lemma fold_update_untouched:
  "j \<notin> set (orbit_refs oos) \<Longrightarrow> fold (update_orbit_object ds) oos objs ! j = objs ! j"
  by (induction oos arbitrary: objs) (simp_all add: orbit_refs_def update_orbit_object_nth_other)

lemma length_fold_update: "length (fold (update_orbit_object ds) oos objs) = length objs"
  by (induction oos arbitrary: objs) (simp_all add: length_update_orbit_object)

lemma fold_update_pivot:
  "distinct (orbit_refs oos) \<Longrightarrow> obj \<in> set oos \<Longrightarrow> pivot obj < length objs \<Longrightarrow>
   rotation_y (fold (update_orbit_object ds) oos objs ! pivot obj)
     = rotation_y (objs ! pivot obj) + oo_orbitSpeed obj * ds * 60"
proof (induction oos arbitrary: objs)
  case Nil
  then show ?case by simp
next
  case (Cons o1 oos)
  have d: "distinct (orbit_refs oos)" and p1: "pivot o1 \<notin> set (orbit_refs oos)"
    and pm: "pivot o1 \<noteq> mesh o1"
    using Cons.prems(1) by (auto simp: orbit_refs_def)
  show ?case
  proof (cases "obj = o1")
    case True
    have "fold (update_orbit_object ds) (o1 # oos) objs ! pivot o1
            = update_orbit_object ds o1 objs ! pivot o1"
      using p1 by (simp add: fold_update_untouched)
    with True pm Cons.prems(3) show ?thesis
      by (simp add: update_orbit_object_pivot)
  next
    case False
    with Cons.prems(2) have mem: "obj \<in> set oos" by simp
    then have "pivot obj \<in> set (orbit_refs oos)"
      by (auto simp: orbit_refs_def)
    with Cons.prems(1) have ne: "pivot obj \<noteq> pivot o1" "pivot obj \<noteq> mesh o1"
      by (auto simp: orbit_refs_def)
    have "rotation_y (fold (update_orbit_object ds) oos (update_orbit_object ds o1 objs) ! pivot obj)
            = rotation_y (update_orbit_object ds o1 objs ! pivot obj) + oo_orbitSpeed obj * ds * 60"
      using Cons.IH [OF d mem] Cons.prems(3) by (simp add: length_update_orbit_object)
    with ne show ?thesis
      by (simp add: update_orbit_object_nth_other)
  qed
qed

lemma render_fields:
  "orbitObjects (render t ctx) = orbitObjects ctx"
  "previousTime (render t ctx) = t"
  "length (objects (render t ctx)) = length (objects ctx)"
  by (simp_all add: render_def Let_def length_fold_update)

lemma render_frames_Suc:
  "render_frames (Suc n) d ctx =
     render (previousTime (render_frames n d ctx) + 1000 * d) (render_frames n d ctx)"
  by (simp add: render_frames_def)

lemma render_frames_fields:
  "orbitObjects (render_frames n d ctx) = orbitObjects ctx"
  "length (objects (render_frames n d ctx)) = length (objects ctx)"
  by (induction n) (simp_all add: render_frames_Suc render_fields, simp_all add: render_frames_def)

lemma render_pivot:
  "distinct (orbit_refs (orbitObjects ctx)) \<Longrightarrow> obj \<in> set (orbitObjects ctx) \<Longrightarrow>
   pivot obj < length (objects ctx) \<Longrightarrow>
   rotation_y (objects (render (previousTime ctx + 1000 * d) ctx) ! pivot obj)
     = rotation_y (objects ctx ! pivot obj) + oo_orbitSpeed obj * d * 60"
  by (simp add: render_def Let_def fold_update_pivot)

lemma render_frames_pivot:
  assumes "distinct (orbit_refs (orbitObjects ctx))" "obj \<in> set (orbitObjects ctx)"
    "pivot obj < length (objects ctx)"
  shows "rotation_y (objects (render_frames n d ctx) ! pivot obj)
     = rotation_y (objects ctx ! pivot obj) + real n * oo_orbitSpeed obj * d * 60"
proof (induction n)
  case 0
  show ?case by (simp add: render_frames_def)
next
  case (Suc n)
  have "rotation_y (objects (render_frames (Suc n) d ctx) ! pivot obj)
          = rotation_y (objects (render_frames n d ctx) ! pivot obj) + oo_orbitSpeed obj * d * 60"
    unfolding render_frames_Suc using assms
    by (intro render_pivot) (simp_all add: render_frames_fields)
  with Suc show ?case by (simp add: algebra_simps)
qed

subsection \<open>World positions\<close>

lemma worldTransform_root:
  "parent (objs ! i) = None \<Longrightarrow> worldTransform objs i = localTransform (objs ! i)"
  by (subst worldTransform.simps) simp

lemma worldTransform_child:
  "parent (objs ! i) = Some p \<Longrightarrow> p < i \<Longrightarrow>
   worldTransform objs i = compose (worldTransform objs p) (localTransform (objs ! i))"
  by (subst worldTransform.simps) simp

lemma worldTransform_cong:
  assumes "\<And>j. parent (objs' ! j) = parent (objs ! j)"
    and "\<And>j. localTransform (objs' ! j) = localTransform (objs ! j)"
  shows "worldTransform objs' i = worldTransform objs i"
proof (induction i rule: less_induct)
  case (less i)
  show ?case
  proof (cases "parent (objs ! i)")
    case None
    then show ?thesis using assms by (simp add: worldTransform_root)
  next
    case (Some p)
    show ?thesis
    proof (cases "p < i")
      case True
      with Some less.IH [OF True] assms show ?thesis
        by (simp add: worldTransform_child)
    next
      case False
      with Some assms show ?thesis
        by (subst (1 2) worldTransform.simps) simp
    qed
  qed
qed

lemma cos_full_turns: "cos (x + 2 * pi * of_int k) = cos x"
  by (simp add: cos_add)

lemma sin_full_turns: "sin (x + 2 * pi * of_int k) = sin x"
  by (simp add: sin_add)

lemma localTransform_turn:
  "localTransform (obj\<lparr>rotation_y := rotation_y obj + 2 * pi * of_int k\<rparr>) = localTransform obj"
  by (simp add: localTransform_def cos_full_turns sin_full_turns)

lemma worldPosition_full_turn:
  "worldPosition (rotate_y j (2 * pi * of_int k) objs) i = worldPosition objs i"
  unfolding worldPosition_def
  by (rule arg_cong [where f = t_pos], rule worldTransform_cong)
     (simp_all add: rotate_y_nth localTransform_turn)

lemma updatePlanet_frames:
  "userData ((updatePlanet ^^ n) p)
     = (userData p)\<lparr>angle := angle (userData p) + real n * ud_speed (userData p)\<rparr>"
  by (induction n) (simp_all add: updatePlanet_def Let_def algebra_simps)

lemma updatePlanet_full_turn:
  "position (updatePlanet (p\<lparr>userData := (userData p)\<lparr>angle := angle (userData p) + 2 * pi * of_int k\<rparr>\<rparr>))
     = position (updatePlanet p)"
proof -
  have e: "angle (userData p) + 2 * pi * of_int k + ud_speed (userData p)
          = angle (userData p) + ud_speed (userData p) + 2 * pi * of_int k"
    by linarith
  show ?thesis
    unfolding updatePlanet_def Let_def
    by (simp del: of_int_mult of_int_add) (simp only: e cos_full_turns sin_full_turns, simp)
qed

text \<open>
  Claim C3. In \<^verbatim>\<open>main.js\<close>, for every body of \<^verbatim>\<open>orbitObjects\<close> (each entry referring to objects
  of its own), after \<open>n\<close> frames that each come \<open>d\<close> seconds after the one before, the body's
  orbit angle is its initial angle plus \<open>n * orbitSpeed * d * 60\<close>; for the context the script
  builds, the initial angles are 0. In \<^verbatim>\<open>app.js\<close>, where a frame adds the speed itself, the
  angle after \<open>n\<close> updates is the initial angle plus \<open>n * speed\<close>, and the position an update
  sets depends on the angle only modulo a full turn: it is the same for angles \<open>2 * pi * k\<close>
  apart. (For the scene graph of \<^verbatim>\<open>main.js\<close> that is lemma \<open>worldPosition_full_turn\<close> above.)
\<close>

theorem orbit_angle_after_frames:
  assumes "distinct (orbit_refs (orbitObjects ctx))"
    and "obj \<in> set (orbitObjects ctx)"
    and "pivot obj < length (objects ctx)"
  shows "rotation_y (objects (render_frames n d ctx) ! pivot obj)
           = rotation_y (objects ctx ! pivot obj) + real n * oo_orbitSpeed obj * d * 60
       \<and> map (\<lambda>b. rotation_y (objects (render_frames n d (buildSolarSystem w0 h0)) ! pivot b))
             (orbitObjects (buildSolarSystem w0 h0))
           = map (\<lambda>b. real n * oo_orbitSpeed b * d * 60) (orbitObjects (buildSolarSystem w0 h0))
       \<and> angle (userData ((updatePlanet ^^ n) p)) = angle (userData p) + real n * ud_speed (userData p)
       \<and> position (updatePlanet
             (p\<lparr>userData := (userData p)\<lparr>angle := angle (userData p) + 2 * pi * of_int k\<rparr>\<rparr>))
           = position (updatePlanet p)"
proof -
  have built: "map (\<lambda>b. rotation_y (objects (render_frames n d (buildSolarSystem w0 h0)) ! pivot b))
             (orbitObjects (buildSolarSystem w0 h0))
           = map (\<lambda>b. real n * oo_orbitSpeed b * d * 60) (orbitObjects (buildSolarSystem w0 h0))"
  proof (rule map_cong [OF refl])
    fix b assume b: "b \<in> set (orbitObjects (buildSolarSystem w0 h0))"
    from render_frames_pivot [OF build_refs_distinct b, of n d] build_refs_in_store [OF b]
    show "rotation_y (objects (render_frames n d (buildSolarSystem w0 h0)) ! pivot b)
            = real n * oo_orbitSpeed b * d * 60"
      by simp
  qed
  show ?thesis
    using render_frames_pivot [OF assms, of n d] built updatePlanet_full_turn [of p k]
    by (simp add: updatePlanet_frames)
qed

theorem orbit_angle_after_frames_witness:
  "distinct (orbit_refs (orbitObjects (buildSolarSystem 800 600)))
   \<and> orbitObjects (buildSolarSystem 800 600) ! 2 \<in> set (orbitObjects (buildSolarSystem 800 600))
   \<and> pivot (orbitObjects (buildSolarSystem 800 600) ! 2) < length (objects (buildSolarSystem 800 600))
   \<and> oo_orbitSpeed (orbitObjects (buildSolarSystem 800 600) ! 2) = 0.012
   \<and> rotation_y (objects (render_frames 3 (1 / 60) (buildSolarSystem 800 600))
         ! pivot (orbitObjects (buildSolarSystem 800 600) ! 2)) = 0.036"
proof -
  let ?ctx = "buildSolarSystem 800 600"
  have 1: "distinct (orbit_refs (orbitObjects ?ctx))"
    by (rule build_refs_distinct)
  have 2: "orbitObjects ?ctx ! 2 \<in> set (orbitObjects ?ctx)"
    by (simp add: build_orbitObjects)
  have 3: "pivot (orbitObjects ?ctx ! 2) < length (objects ?ctx)"
    by (simp add: build_orbitObjects build_objects)
  have 4: "oo_orbitSpeed (orbitObjects ?ctx ! 2) = 0.012"
    "rotation_y (objects ?ctx ! pivot (orbitObjects ?ctx ! 2)) = 0"
    by (simp_all add: build_orbitObjects build_objects)
  from orbit_angle_after_frames [OF 1 2 3, of 3 "1 / 60"]
  have "rotation_y (objects (render_frames 3 (1 / 60) ?ctx) ! pivot (orbitObjects ?ctx ! 2))
          = rotation_y (objects ?ctx ! pivot (orbitObjects ?ctx ! 2))
            + real 3 * oo_orbitSpeed (orbitObjects ?ctx ! 2) * (1 / 60) * 60"
    by blast
  then have "rotation_y (objects (render_frames 3 (1 / 60) ?ctx) ! pivot (orbitObjects ?ctx ! 2)) = 0.036"
    by (simp only: 4) simp
  with 1 2 3 4 show ?thesis by blast
qed


subsection \<open>Cosine and sine of a small angle\<close>

lemma sum_lessThan_4: "(\<Sum>m<4. f m) = f 0 + f 1 + f 2 + (f (3::nat) :: real)"
  by (simp add: eval_nat_numeral)

lemma sin_small: "\<bar>sin (x::real) - (x - x ^ 3 / 6)\<bar> \<le> \<bar>x\<bar> ^ 4 / 24"
proof -
  have "(\<Sum>m<4. sin_coeff m * x ^ m) = x - x ^ 3 / 6"
    by (simp add: sum_lessThan_4 sin_coeff_def fact_numeral)
  with Maclaurin_sin_bound [of x 4] show ?thesis
    by (simp add: fact_numeral)
qed

lemma cos_small: "\<bar>cos (x::real) - (1 - x\<^sup>2 / 2)\<bar> \<le> \<bar>x\<bar> ^ 4 / 24"
proof -
  obtain t where t: "cos x = (\<Sum>m<4. cos_coeff m * x ^ m) + (cos (t + 1/2 * real (4::nat) * pi) / fact 4) * x ^ 4"
    using Maclaurin_cos_expansion [of x 4] by blast
  have s: "(\<Sum>m<4. cos_coeff m * x ^ m) = 1 - x\<^sup>2 / 2"
    by (simp add: sum_lessThan_4 cos_coeff_def fact_numeral)
  have "\<bar>cos x - (1 - x\<^sup>2 / 2)\<bar> = \<bar>cos (t + 1/2 * real (4::nat) * pi)\<bar> * (\<bar>x\<bar> ^ 4 / 24)"
    unfolding t s by (simp add: fact_numeral abs_mult power_abs)
  also have "\<dots> \<le> 1 * (\<bar>x\<bar> ^ 4 / 24)"
    by (intro mult_right_mono abs_cos_le_one) simp
  finally show ?thesis by simp
qed

lemma earth_x: "11.9991359 < 12 * cos (0.012::real) \<and> 12 * cos (0.012::real) < 11.9991361"
  using cos_small [of "0.012"] by (simp add: power2_eq_square eval_nat_numeral abs_if split: if_splits)

lemma earth_z: "0.1439965 < 12 * sin (0.012::real) \<and> 12 * sin (0.012::real) < 0.1439966"
  using sin_small [of "0.012"] by (simp add: eval_nat_numeral abs_if split: if_splits)

text \<open>
  Claim C4. One frame update of \<^verbatim>\<open>app.js\<close>, which adds the speed itself, on a body at distance
  12 with speed 0.012 (the Earth row of \<^verbatim>\<open>PLANETS\<close>) and angle 0 gives the angle 0.012 and the
  position \<open>(12 * cos 0.012, 0, 12 * sin 0.012)\<close>, whatever the position before. Its second
  component is exactly 0; the first lies between 11.9991359 and 11.9991361 and the third
  between 0.1439965 and 0.1439966, so both are within \<open>10\<^sup>-\<^sup>5\<close> of the quoted 11.99914 and
  0.14399.
\<close>

theorem earth_after_one_frame:
  "updatePlanet \<lparr>userData = \<lparr>orbitRadius = 12, angle = 0, ud_speed = 0.012\<rparr>, position = p0\<rparr>
     = \<lparr>userData = \<lparr>orbitRadius = 12, angle = 0.012, ud_speed = 0.012\<rparr>,
        position = (12 * cos 0.012, 0, 12 * sin 0.012)\<rparr>
   \<and> fst (snd (position
         (updatePlanet \<lparr>userData = \<lparr>orbitRadius = 12, angle = 0, ud_speed = 0.012\<rparr>, position = p0\<rparr>)))
       = 0
   \<and> (11.9991359 :: real) < 12 * cos 0.012
   \<and> 12 * cos 0.012 < (11.9991361 :: real)
   \<and> (0.1439965 :: real) < 12 * sin 0.012
   \<and> 12 * sin 0.012 < (0.1439966 :: real)
   \<and> \<bar>12 * cos 0.012 - 11.99914\<bar> < (1 / 100000 :: real)
   \<and> \<bar>12 * sin 0.012 - 0.14399\<bar> < (1 / 100000 :: real)
   \<and> body_name (PLANETS ! 2) = ''Earth''
   \<and> distance (PLANETS ! 2) = 12
   \<and> orbitSpeed (PLANETS ! 2) = 0.012"
proof -
  have near: "\<bar>12 * cos 0.012 - 11.99914\<bar> < (1 / 100000 :: real)"
    "\<bar>12 * sin 0.012 - 0.14399\<bar> < (1 / 100000 :: real)"
    using earth_x earth_z by (simp_all add: abs_if)
  show ?thesis
    using earth_x earth_z near by (simp add: updatePlanet_def PLANETS_def)
qed

subsection \<open>The moon\<close>

lemma rotate_about_y_inj:
  assumes eq: "rotate_about_y c1 s1 (x, y, z) = rotate_about_y c2 s2 (x, y, z)"
    and nz: "x \<noteq> 0"
  shows "c1 = c2 \<and> s1 = s2"
proof -
  define p where "p = c1 - c2"
  define q where "q = s1 - s2"
  from eq have 1: "p * x = q * z" and 2: "q * x = - (p * z)"
    by (simp_all add: rotate_about_y_def p_def q_def algebra_simps)
  from 2 have 3: "p * z = - (q * x)" by simp
  have "p * (x * x + z * z) = (p * x) * x + (p * z) * z"
    by (simp add: algebra_simps)
  also have "\<dots> = (q * z) * x + (- (q * x)) * z"
    by (simp only: 1 3)
  also have "\<dots> = 0"
    by (simp add: algebra_simps)
  finally have p0: "p = 0"
    using nz by (simp add: add_nonneg_eq_0_iff)
  have "q * (x * x + z * z) = (q * x) * x + (q * z) * z"
    by (simp add: algebra_simps)
  also have "\<dots> = (- (p * z)) * x + (p * x) * z"
    by (simp only: 1 2)
  also have "\<dots> = 0"
    by (simp add: algebra_simps)
  finally have "q = 0"
    using nz by (simp add: add_nonneg_eq_0_iff)
  with p0 show ?thesis by (simp add: p_def q_def)
qed

lemma angle_eq_full_turns:
  assumes "cos a = cos b" "sin a = sin b" "\<bar>a - b\<bar> < 2 * pi"
  shows "a = (b::real)"
proof -
  from assms(1,2) obtain k :: int where k: "a = b + 2 * pi * of_int k"
    using sin_cos_eq_iff [of a b] by auto
  then have "\<bar>a - b\<bar> = 2 * pi * \<bar>of_int k\<bar>"
    by (simp add: abs_mult)
  with assms(3) have "\<bar>real_of_int k\<bar> < 1"
    by simp
  then have "k = 0" by linarith
  with k show ?thesis by simp
qed

lemma moon_worldPosition:
  "worldPosition
     (set_rotation_y 4 a (set_rotation_y 5 r (set_rotation_y 6 m (objects (buildSolarSystem w0 h0))))) 7
   = rotate_about_y (cos a) (sin a) (12 + 2.2 * cos (r + m), 0, 2.2 * sin (r + m))"
  by (simp add: worldPosition_def worldTransform_child [where p = 6] worldTransform_child [where p = 5]
      worldTransform_child [where p = 4] worldTransform_root set_rotation_y_nth length_set_rotation_y
      build_objects compose_def localTransform_def rotate_about_y_def vec_add_def cos_add sin_add algebra_simps)

lemma earth_worldPosition:
  "worldPosition
     (set_rotation_y 4 a (set_rotation_y 5 r (set_rotation_y 6 m (objects (buildSolarSystem w0 h0))))) 5
   = rotate_about_y (cos a) (sin a) (12, 0, 0)"
  by (simp add: worldPosition_def worldTransform_child [where p = 4] worldTransform_root
      set_rotation_y_nth length_set_rotation_y
      build_objects compose_def localTransform_def rotate_about_y_def vec_add_def)

lemma moon_offset_nonzero: "12 + 2.2 * cos (x::real) \<noteq> 0"
proof -
  have "2.2 * (- 1) \<le> 2.2 * cos x"
    by (intro mult_left_mono) simp_all
  then show ?thesis by linarith
qed

lemma moon_moves_with_earth:
  assumes "0 < \<bar>a - a'\<bar>" "\<bar>a - a'\<bar> < 2 * pi"
  shows "rotate_about_y (cos a) (sin a) (12 + 2.2 * cos (r + m), 0, 2.2 * sin (r + m))
       \<noteq> rotate_about_y (cos a') (sin a') (12 + 2.2 * cos (r + m), 0, 2.2 * sin (r + m))"
proof
  assume "rotate_about_y (cos a) (sin a) (12 + 2.2 * cos (r + m), 0, 2.2 * sin (r + m))
       = rotate_about_y (cos a') (sin a') (12 + 2.2 * cos (r + m), 0, 2.2 * sin (r + m))"
  from rotate_about_y_inj [OF this moon_offset_nonzero]
  have "cos a = cos a'" "sin a = sin a'" by simp_all
  from angle_eq_full_turns [OF this assms(2)] assms(1) show False by simp
qed

text \<open>
  Claim C6. In the scene \<^verbatim>\<open>main.js\<close> builds, the Moon's pivot hangs on the Earth's mesh, which
  hangs on the Earth's pivot. With the Earth's orbit angle \<open>a\<close>, its spin \<open>r\<close> and the Moon's own
  orbit angle \<open>m\<close>, the Moon's world position is the Earth's transform applied to the Moon's
  offset in the Earth's frame: the rotation by \<open>a\<close> of the Earth's offset \<open>(12, 0, 0)\<close> plus the
  Moon's offset \<open>(2.2, 0, 0)\<close> turned by \<open>r + m\<close>. With \<open>r\<close> and \<open>m\<close> held fixed, changing the
  Earth's orbit angle by anything short of a full turn changes the Moon's world position.
\<close>

theorem satellite_follows_parent:
  "(let ctx = buildSolarSystem w0 h0;
        earth = orbitObjects ctx ! 2;
        moon = orbitObjects ctx ! 3;
        objs = set_rotation_y (mesh earth) r (set_rotation_y (pivot moon) m (objects ctx))
    in parent (objects ctx ! pivot earth) = None
       \<and> parent (objects ctx ! mesh earth) = Some (pivot earth)
       \<and> parent (objects ctx ! pivot moon) = Some (mesh earth)
       \<and> parent (objects ctx ! mesh moon) = Some (pivot moon)
       \<and> worldPosition (set_rotation_y (pivot earth) a objs) (mesh earth)
           = rotate_about_y (cos a) (sin a) (12, 0, 0)
       \<and> worldPosition (set_rotation_y (pivot earth) a objs) (mesh moon)
           = rotate_about_y (cos a) (sin a)
               (vec_add (12, 0, 0) (rotate_about_y (cos (r + m)) (sin (r + m)) (2.2, 0, 0)))
       \<and> (0 < \<bar>a - a'\<bar> \<and> \<bar>a - a'\<bar> < 2 * pi \<longrightarrow>
            worldPosition (set_rotation_y (pivot earth) a objs) (mesh moon)
              \<noteq> worldPosition (set_rotation_y (pivot earth) a' objs) (mesh moon)))"
proof -
  have v: "vec_add (12, 0, 0) (rotate_about_y (cos (r + m)) (sin (r + m)) (2.2, 0, 0))
             = (12 + 2.2 * cos (r + m), 0, 2.2 * sin (r + m))"
    by (simp add: vec_add_def rotate_about_y_def)
  have p: "parent (objects (buildSolarSystem w0 h0) ! 4) = None"
    "parent (objects (buildSolarSystem w0 h0) ! 5) = Some 4"
    "parent (objects (buildSolarSystem w0 h0) ! 6) = Some 5"
    "parent (objects (buildSolarSystem w0 h0) ! 7) = Some 6"
    by (simp_all add: build_objects)
  have ids: "pivot (orbitObjects (buildSolarSystem w0 h0) ! 2) = 4"
    "mesh (orbitObjects (buildSolarSystem w0 h0) ! 2) = 5"
    "pivot (orbitObjects (buildSolarSystem w0 h0) ! 3) = 6"
    "mesh (orbitObjects (buildSolarSystem w0 h0) ! 3) = 7"
    by (simp_all add: build_orbitObjects)
  have mv: "0 < \<bar>a - a'\<bar> \<and> \<bar>a - a'\<bar> < 2 * pi \<longrightarrow>
      worldPosition (set_rotation_y 4 a (set_rotation_y 5 r (set_rotation_y 6 m (objects (buildSolarSystem w0 h0))))) 7
        \<noteq> worldPosition (set_rotation_y 4 a' (set_rotation_y 5 r (set_rotation_y 6 m (objects (buildSolarSystem w0 h0))))) 7"
    unfolding moon_worldPosition using moon_moves_with_earth [of a a' r m] by blast
  show ?thesis
    unfolding Let_def ids p v
    using mv moon_worldPosition [of a r m w0 h0] earth_worldPosition [of a r m w0 h0]
    by simp
qed

theorem satellite_follows_parent_witness:
  "0 < \<bar>0 - pi\<bar> \<and> \<bar>0 - pi\<bar> < 2 * pi
   \<and> (let ctx = buildSolarSystem 800 600;
          earth = orbitObjects ctx ! 2;
          moon = orbitObjects ctx ! 3;
          objs = set_rotation_y (mesh earth) 0 (set_rotation_y (pivot moon) 0 (objects ctx))
      in worldPosition (set_rotation_y (pivot earth) 0 objs) (mesh moon)
           \<noteq> worldPosition (set_rotation_y (pivot earth) pi objs) (mesh moon))"
proof -
  have h: "0 < \<bar>0 - pi\<bar> \<and> \<bar>0 - pi\<bar> < 2 * pi"
    by simp
  show ?thesis
    using h satellite_follows_parent [of 800 600 0 0 0 pi]
    unfolding Let_def by blast
qed


end
